theory Spec2Isabelle
  imports Complex_Main "HOL-Library.Monad_Syntax" "HOL-Library.Word"
begin

section \<open>The film-look pixel shader\<close>

text \<open>
  The repository holds one algorithm: the pixel shader \<open>mainImage\<close> embedded as a string in
  \<open>src/film-look-filter.cpp\<close>, an older copy of it, \<open>pixel_shader\<close> in
  \<open>data/film_look.effect\<close>, and the pass-through shader of \<open>data/passthrough.effect\<close>.

  Conventions of the embedding.
  \<^item> The shader's \<open>float\<close> is modelled by \<^typ>\<open>real\<close>: rounding, infinities and NaN are not
    represented. The one division the code guards, the division of an accumulator by its sample
    counter, is modelled as a checked division that returns \<open>None\<close> for the divisor 0. The
    reciprocal \<open>1.0 / uv_size\<close> is the quotient of real numbers; the host sets \<open>uv_size\<close> to the
    width and height of the frame, and a frame with a zero side (an infinite reciprocal in the
    shader) is outside the model.
  \<^item> The shader's \<open>int\<close> is a 32-bit word read in two's complement: negation, \<open>abs\<close> and
    \<open>x++\<close> wrap around, comparisons are signed. A \<open>for\<close> loop whose upper bound is the greatest
    integer never ends; the loops are partial functions, and \<open>None\<close> stands for a run that
    yields no pixel.
  \<^item> A scalar operand of a vector operation is promoted to a vector with equal components
    (\<open>splat2\<close>, \<open>splat3\<close>), as the shading language does.
\<close>

subsection \<open>Machine integers\<close>

type_synonym int32 = "32 word"

definition INT_MAX :: int32 where
  "INT_MAX = 2147483647"

definition INT_MIN :: int32 where
  "INT_MIN = - 2147483648"

text \<open>The intrinsics \<open>abs\<close> and \<open>max\<close> on \<open>int\<close>; \<open>abs\<close> of the least integer is itself.\<close>

definition abs32 :: "int32 \<Rightarrow> int32" where
  "abs32 x = (if x <s 0 then - x else x)"

definition max32 :: "int32 \<Rightarrow> int32 \<Rightarrow> int32" where
  "max32 a b = (if a <s b then b else a)"

subsection \<open>Vectors\<close>

datatype float2 = float2 (xcomp: real) (ycomp: real)

datatype float3 = float3 (red: real) (green: real) (blue: real)

datatype float4 = float4 (rgb: float3) (alpha: real)

instantiation float2 :: "{zero, plus, minus, times, inverse}"
begin

definition zero_float2 :: float2 where
  "zero_float2 = float2 0 0"

definition plus_float2 :: "float2 \<Rightarrow> float2 \<Rightarrow> float2" where
  "plus_float2 p q = float2 (xcomp p + xcomp q) (ycomp p + ycomp q)"

definition minus_float2 :: "float2 \<Rightarrow> float2 \<Rightarrow> float2" where
  "minus_float2 p q = float2 (xcomp p - xcomp q) (ycomp p - ycomp q)"

definition times_float2 :: "float2 \<Rightarrow> float2 \<Rightarrow> float2" where
  "times_float2 p q = float2 (xcomp p * xcomp q) (ycomp p * ycomp q)"

definition inverse_float2 :: "float2 \<Rightarrow> float2" where
  "inverse_float2 p = float2 (inverse (xcomp p)) (inverse (ycomp p))"

definition divide_float2 :: "float2 \<Rightarrow> float2 \<Rightarrow> float2" where
  "divide_float2 p q = float2 (xcomp p / xcomp q) (ycomp p / ycomp q)"

instance ..

end

instantiation float3 :: "{zero, plus, minus, times, inverse}"
begin

definition zero_float3 :: float3 where
  "zero_float3 = float3 0 0 0"

definition plus_float3 :: "float3 \<Rightarrow> float3 \<Rightarrow> float3" where
  "plus_float3 p q = float3 (red p + red q) (green p + green q) (blue p + blue q)"

definition minus_float3 :: "float3 \<Rightarrow> float3 \<Rightarrow> float3" where
  "minus_float3 p q = float3 (red p - red q) (green p - green q) (blue p - blue q)"

definition times_float3 :: "float3 \<Rightarrow> float3 \<Rightarrow> float3" where
  "times_float3 p q = float3 (red p * red q) (green p * green q) (blue p * blue q)"

definition inverse_float3 :: "float3 \<Rightarrow> float3" where
  "inverse_float3 p = float3 (inverse (red p)) (inverse (green p)) (inverse (blue p))"

definition divide_float3 :: "float3 \<Rightarrow> float3 \<Rightarrow> float3" where
  "divide_float3 p q = float3 (red p / red q) (green p / green q) (blue p / blue q)"

instance ..

end

instance float3 :: comm_monoid_add
proof
  fix a b c :: float3
  show "a + b + c = a + (b + c)"
    by (simp add: plus_float3_def)
  show "a + b = b + a"
    by (simp add: plus_float3_def)
  show "0 + a = a"
    by (simp add: plus_float3_def zero_float3_def)
qed

definition splat2 :: "real \<Rightarrow> float2" where
  "splat2 s = float2 s s"

definition splat3 :: "real \<Rightarrow> float3" where
  "splat3 s = float3 s s s"

subsection \<open>Intrinsic functions of the shading language\<close>

text \<open>
  Modelled from the spec: the intrinsics \<open>dot\<close>, \<open>pow\<close>, \<open>lerp\<close>, \<open>clamp\<close>, \<open>frac\<close> and
  \<open>smoothstep\<close> belong to the shading language and are not defined in the repository.
  \<open>smoothstep\<close> is the cubic Hermite step of the specification:
  \<open>t = clamp((x - edge0) / (edge1 - edge0), 0, 1)\<close>, result \<open>t * t * (3 - 2 * t)\<close>.
  \<open>pow\<close> is the real power of a non-negative base; \<open>frac\<close> is the fractional part
  \<^const>\<open>frac\<close> of the library.
\<close>

definition dot2 :: "float2 \<Rightarrow> float2 \<Rightarrow> real" where
  "dot2 p q = xcomp p * xcomp q + ycomp p * ycomp q"

definition dot :: "float3 \<Rightarrow> float3 \<Rightarrow> real" where
  "dot p q = red p * red q + green p * green q + blue p * blue q"

definition pow :: "float3 \<Rightarrow> float3 \<Rightarrow> float3" where
  "pow p q = float3 (red p powr red q) (green p powr green q) (blue p powr blue q)"

definition lerp :: "float3 \<Rightarrow> float3 \<Rightarrow> real \<Rightarrow> float3" where
  "lerp p q s = p + splat3 s * (q - p)"

definition clamp1 :: "real \<Rightarrow> real \<Rightarrow> real \<Rightarrow> real" where
  "clamp1 x lo hi = min (max x lo) hi"

definition clamp :: "float3 \<Rightarrow> real \<Rightarrow> real \<Rightarrow> float3" where
  "clamp p lo hi = float3 (clamp1 (red p) lo hi) (clamp1 (green p) lo hi) (clamp1 (blue p) lo hi)"

definition smoothstep :: "real \<Rightarrow> real \<Rightarrow> real \<Rightarrow> real" where
  "smoothstep edge0 edge1 x =
     (let t = clamp1 ((x - edge0) / (edge1 - edge0)) 0 1 in t * t * (3 - 2 * t))"

subsection \<open>Textures and samplers\<close>

text \<open>
  Modelled from the spec: the texture fetch \<open>image.Sample\<close> is done by the graphics host. A
  texture is given by its filtered colour at every coordinate of the unit square. The address
  modes of the sampler decide the result elsewhere: with \<open>Border\<close> a coordinate outside \<open>[0,1]\<close>
  on that axis yields the border colour, with \<open>Clamp\<close> the coordinate is moved to the nearest
  end of \<open>[0,1]\<close>, which yields the edge pixel.
\<close>

type_synonym texture2d = "float2 \<Rightarrow> float4"

datatype filter_mode = Linear | Point

datatype address_mode = Clamp | Border

record sampler_state =
  Filter :: filter_mode
  AddressU :: address_mode
  AddressV :: address_mode
  BorderColor :: float4

definition outside :: "real \<Rightarrow> bool" where
  "outside c = (c < 0 \<or> 1 < c)"

definition Sample :: "texture2d \<Rightarrow> sampler_state \<Rightarrow> float2 \<Rightarrow> float4" where
  "Sample img smp uv =
     (if (AddressU smp = Border \<and> outside (xcomp uv)) \<or>
         (AddressV smp = Border \<and> outside (ycomp uv))
      then BorderColor smp
      else img (float2 (clamp1 (xcomp uv) 0 1) (clamp1 (ycomp uv) 0 1)))"

text \<open>The \<open>sampler_state\<close> block of the shader string in \<open>film-look-filter.cpp\<close>.\<close>

definition textureSampler :: sampler_state where
  "textureSampler =
     \<lparr>Filter = Linear, AddressU = Border, AddressV = Border,
      BorderColor = float4 (float3 0 0 0) 0\<rparr>"

text \<open>
  The \<open>sampler_state\<close> block of \<open>data/film_look.effect\<close>. It sets no border colour; the field
  is not read under \<open>Clamp\<close>.
\<close>

definition textureSampler_film_look_effect :: sampler_state where
  "textureSampler_film_look_effect =
     \<lparr>Filter = Linear, AddressU = Clamp, AddressV = Clamp,
      BorderColor = float4 (float3 0 0 0) 0\<rparr>"

text \<open>The \<open>sampler_state\<close> block of \<open>data/passthrough.effect\<close>.\<close>

definition textureSampler_passthrough :: sampler_state where
  "textureSampler_passthrough =
     \<lparr>Filter = Linear, AddressU = Border, AddressV = Border,
      BorderColor = float4 (float3 0 0 0) 0\<rparr>"

subsection \<open>Uniforms\<close>

record uniforms =
  elapsed_time :: real
  uv_size :: float2
  contrast :: real
  teal_amount :: real
  orange_amount :: real
  bloom_intensity :: real
  bloom_threshold :: real
  bloom_radius :: int32
  halation_intensity :: real
  halation_threshold :: real
  halation_radius :: int32
  secondary_glow_intensity :: real
  secondary_glow_threshold :: real
  secondary_glow_radius :: int32
  grain_intensity :: real
  shake_intensity :: real
  shake_speed :: real

subsection \<open>Helper functions of the shader\<close>

definition random :: "float2 \<Rightarrow> real" where
  "random st = frac (sin (dot2 st (float2 12.9898 78.233)) * 43758.5453123)"

definition BlendScreen :: "float3 \<Rightarrow> float3 \<Rightarrow> float3" where
  "BlendScreen base blend = splat3 1 - ((splat3 1 - base) * (splat3 1 - blend))"

subsection \<open>Part 0: camera shake\<close>

definition shake_offset :: "uniforms \<Rightarrow> float2" where
  "shake_offset P =
     (if shake_intensity P > 0 then
        (let time = elapsed_time P * shake_speed P;
             shake_x = (sin (time * 1.3 + 0.5) + sin (time * 2.7 + 1.2)) * 0.5;
             shake_y = (cos (time * 1.7 - 0.8) + cos (time * 3.1 - 0.3)) * 0.5
         in float2 shake_x shake_y * splat2 (shake_intensity P))
      else float2 0 0)"

subsection \<open>Part 1: colour grading\<close>

definition graded_color :: "uniforms \<Rightarrow> float3 \<Rightarrow> float3" where
  "graded_color P original_rgb =
     (let graded = pow original_rgb (float3 (contrast P) (contrast P) (contrast P));
          luma = dot graded (float3 0.299 0.587 0.114);
          teal_color = float3 0.7 0.85 1.0;
          orange_color = float3 1.0 0.9 0.7;
          graded = lerp graded teal_color (smoothstep 0.5 1.0 luma * teal_amount P);
          graded = lerp graded orange_color (smoothstep 0.4 0.0 luma * orange_amount P)
      in graded)"

subsection \<open>Part 2: the neighbourhood scan\<close>

record glow_state =
  bloom_accum :: float3
  halation_accum :: float3
  secondary_glow_accum :: float3
  bloom_sample_count :: real
  halation_sample_count :: real
  secondary_glow_sample_count :: real

definition glow_init :: glow_state where
  "glow_init =
     \<lparr>bloom_accum = float3 0 0 0, halation_accum = float3 0 0 0,
      secondary_glow_accum = float3 0 0 0, bloom_sample_count = 0,
      halation_sample_count = 0, secondary_glow_sample_count = 0\<rparr>"

text \<open>
  The loop \<open>for (int i = lo; i <= hi; i++) s = body i s\<close>, entered at \<open>i\<close>. The counter wraps
  around at the greatest integer, so the loop need not end; a body may itself be a loop.
\<close>

partial_function (option) for_loop ::
  "int32 \<Rightarrow> int32 \<Rightarrow> (int32 \<Rightarrow> 's \<Rightarrow> 's option) \<Rightarrow> 's \<Rightarrow> 's option" where
  "for_loop i hi body s =
     (if i \<le>s hi then Option.bind (body i s) (for_loop (i + 1) hi body) else Some s)"

text \<open>The body of the inner loop, at the offset \<open>(x, y)\<close>.\<close>

definition scan_step ::
  "texture2d \<Rightarrow> sampler_state \<Rightarrow> uniforms \<Rightarrow> float2 \<Rightarrow> float2 \<Rightarrow> int32 \<Rightarrow> int32 \<Rightarrow>
   glow_state \<Rightarrow> glow_state" where
  "scan_step img smp P shaken_uv pixel_size x y s =
     (let offset = float2 (real_of_int (sint x)) (real_of_int (sint y));
          sample_uv = shaken_uv + offset * pixel_size;
          sample_color = rgb (Sample img smp sample_uv);
          sample_luma = dot sample_color (float3 0.299 0.587 0.114);
          s = (if bloom_intensity P > 0 \<and> abs32 x \<le>s bloom_radius P
                    \<and> abs32 y \<le>s bloom_radius P then
                 (let bright_factor = smoothstep (bloom_threshold P) 1.0 sample_luma
                  in s\<lparr>bloom_accum := bloom_accum s + sample_color * splat3 bright_factor,
                       bloom_sample_count := bloom_sample_count s + 1\<rparr>)
               else s);
          s = (if halation_intensity P > 0 \<and> abs32 x \<le>s halation_radius P
                    \<and> abs32 y \<le>s halation_radius P then
                 (let halation_bright_factor = smoothstep (halation_threshold P) 1.0 sample_luma;
                      tinted_color = sample_color * float3 1.0 0.2 0.1
                  in s\<lparr>halation_accum :=
                         halation_accum s + tinted_color * splat3 halation_bright_factor,
                       halation_sample_count := halation_sample_count s + 1\<rparr>)
               else s);
          s = (if secondary_glow_intensity P > 0 \<and> abs32 x \<le>s secondary_glow_radius P
                    \<and> abs32 y \<le>s secondary_glow_radius P then
                 (let sg_bright_factor =
                        smoothstep (secondary_glow_threshold P) 1.0 sample_luma;
                      sg_tint = float3 0.6 0.8 1.0
                  in s\<lparr>secondary_glow_accum :=
                         secondary_glow_accum s + (sample_color * sg_tint) * splat3 sg_bright_factor,
                       secondary_glow_sample_count := secondary_glow_sample_count s + 1\<rparr>)
               else s)
      in s)"

definition max_radius_for_loop :: "uniforms \<Rightarrow> int32" where
  "max_radius_for_loop P =
     max32 (max32 (bloom_radius P) (halation_radius P)) (secondary_glow_radius P)"

text \<open>The two nested loops over the square of offsets, from the zero accumulators.\<close>

definition scan ::
  "texture2d \<Rightarrow> sampler_state \<Rightarrow> uniforms \<Rightarrow> float2 \<Rightarrow> float2 \<Rightarrow> glow_state option" where
  "scan img smp P shaken_uv pixel_size =
     for_loop (- max_radius_for_loop P) (max_radius_for_loop P)
       (\<lambda>x. for_loop (- max_radius_for_loop P) (max_radius_for_loop P)
              (\<lambda>y s. Some (scan_step img smp P shaken_uv pixel_size x y s)))
       glow_init"

text \<open>
  \<open>if (count > 0.0) { accum /= count; }\<close>. The quotient by a zero divisor is no real
  number: the checked division answers \<open>None\<close> there.
\<close>

definition div_assign :: "float3 \<Rightarrow> real \<Rightarrow> float3 option" where
  "div_assign accum d = (if d = 0 then None else Some (accum / splat3 d))"

definition normalize_accum :: "float3 \<Rightarrow> real \<Rightarrow> float3 option" where
  "normalize_accum accum sample_count =
     (if sample_count > 0 then div_assign accum sample_count else Some accum)"

subsection \<open>Part 3: combining\<close>

definition add_bloom :: "uniforms \<Rightarrow> float3 \<Rightarrow> float3 \<Rightarrow> float3" where
  "add_bloom P final bloom =
     (if bloom_intensity P > 0 then final + bloom * splat3 (bloom_intensity P) else final)"

definition screen_halation :: "uniforms \<Rightarrow> float3 \<Rightarrow> float3 \<Rightarrow> float3" where
  "screen_halation P final halation =
     (if halation_intensity P > 0
      then BlendScreen final (halation * splat3 (halation_intensity P)) else final)"

definition screen_secondary_glow :: "uniforms \<Rightarrow> float3 \<Rightarrow> float3 \<Rightarrow> float3" where
  "screen_secondary_glow P final secondary_glow =
     (if secondary_glow_intensity P > 0
      then BlendScreen final (secondary_glow * splat3 (secondary_glow_intensity P))
      else final)"

definition add_grain :: "uniforms \<Rightarrow> float2 \<Rightarrow> float3 \<Rightarrow> float3" where
  "add_grain P shaken_uv final =
     (let grain_seed_uv = shaken_uv + splat2 (frac (elapsed_time P));
          grain = (random grain_seed_uv - 0.5) * 2.0
      in final + splat3 (grain * grain_intensity P))"

definition final_color ::
  "uniforms \<Rightarrow> float2 \<Rightarrow> float3 \<Rightarrow> float3 \<Rightarrow> float3 \<Rightarrow> float3 \<Rightarrow> float3" where
  "final_color P shaken_uv graded bloom halation secondary_glow =
     add_grain P shaken_uv
       (screen_secondary_glow P
          (screen_halation P (add_bloom P graded bloom) halation) secondary_glow)"

subsection \<open>The pixel shaders\<close>

text \<open>
  The bodies of \<open>mainImage\<close> (\<open>film-look-filter.cpp\<close>) and of \<open>pixel_shader\<close>
  (\<open>data/film_look.effect\<close>) are the same text but for the line that sets \<open>pixel_size\<close>, and
  they read the texture through the sampler of their own file. \<open>film_look\<close> is that body, with
  the sampler and the pixel size as arguments.
\<close>

definition film_look ::
  "sampler_state \<Rightarrow> float2 \<Rightarrow> texture2d \<Rightarrow> uniforms \<Rightarrow> float2 \<Rightarrow> float4 option" where
  "film_look smp pixel_size img P uv =
     (let shaken_uv = uv + shake_offset P;
          original_color = Sample img smp shaken_uv;
          graded = graded_color P (rgb original_color)
      in do {
           s \<leftarrow> scan img smp P shaken_uv pixel_size;
           bloom \<leftarrow> normalize_accum (bloom_accum s) (bloom_sample_count s);
           halation \<leftarrow> normalize_accum (halation_accum s) (halation_sample_count s);
           secondary_glow \<leftarrow>
             normalize_accum (secondary_glow_accum s) (secondary_glow_sample_count s);
           Some (float4
                   (clamp (final_color P shaken_uv graded bloom halation secondary_glow) 0 1)
                   (alpha original_color))
         })"

text \<open>\<open>mainImage\<close> of \<open>film-look-filter.cpp\<close>: \<open>pixel_size = 1.0 / uv_size\<close>.\<close>

definition mainImage :: "texture2d \<Rightarrow> uniforms \<Rightarrow> float2 \<Rightarrow> float4 option" where
  "mainImage img P uv = film_look textureSampler (splat2 1 / uv_size P) img P uv"

text \<open>\<open>pixel_shader\<close> of \<open>data/film_look.effect\<close>: \<open>pixel_size = uv_size\<close>.\<close>

definition pixel_shader :: "texture2d \<Rightarrow> uniforms \<Rightarrow> float2 \<Rightarrow> float4 option" where
  "pixel_shader img P uv = film_look textureSampler_film_look_effect (uv_size P) img P uv"

text \<open>\<open>mainImage\<close> of \<open>data/passthrough.effect\<close>.\<close>

definition passthrough_mainImage :: "texture2d \<Rightarrow> float2 \<Rightarrow> float4" where
  "passthrough_mainImage img uv = Sample img textureSampler_passthrough uv"

subsection \<open>Notions used in the statements\<close>

text \<open>
  The colour the scan reads at the offset \<open>(x, y)\<close>, the luma of a colour, and the summand an
  effect with the given threshold and tint adds for a sample of colour \<open>c\<close>. Bloom has the tint
  \<open>(1, 1, 1)\<close>.
\<close>

definition sample_color_at ::
  "texture2d \<Rightarrow> sampler_state \<Rightarrow> float2 \<Rightarrow> float2 \<Rightarrow> int \<Rightarrow> int \<Rightarrow> float3" where
  "sample_color_at img smp shaken_uv pixel_size x y =
     rgb (Sample img smp (shaken_uv + float2 (real_of_int x) (real_of_int y) * pixel_size))"

definition luma :: "float3 \<Rightarrow> real" where
  "luma c = dot c (float3 0.299 0.587 0.114)"

definition weighted :: "real \<Rightarrow> float3 \<Rightarrow> float3 \<Rightarrow> float3" where
  "weighted threshold tint c = (c * tint) * splat3 (smoothstep threshold 1 (luma c))"

text \<open>A colour whose four channels lie in \<open>[0,1]\<close>.\<close>

definition normalized :: "float4 \<Rightarrow> bool" where
  "normalized c =
     (0 \<le> red (rgb c) \<and> red (rgb c) \<le> 1 \<and> 0 \<le> green (rgb c) \<and> green (rgb c) \<le> 1 \<and>
      0 \<le> blue (rgb c) \<and> blue (rgb c) \<le> 1 \<and> 0 \<le> alpha c \<and> alpha c \<le> 1)"

text \<open>
  The offsets one loop of the scan visits when it ends: the integers from \<open>- R\<close>, as the
  machine computes it, to \<open>R\<close>, for the scan bound \<open>R\<close>.
\<close>

definition offsets :: "uniforms \<Rightarrow> int32 list" where
  "offsets P =
     map word_of_int [sint (- max_radius_for_loop P)..sint (max_radius_for_loop P)]"

subsection \<open>Concrete inputs\<close>

text \<open>
  The default settings of \<open>film_look_defaults\<close> at time 0, on a frame of 1920 by 1080 pixels;
  the settings that switch every stage off; the default settings with one radius made
  negative, for each effect (the scan still runs, by the other radii); settings with bloom
  alone, at radius 0 and, on a frame of one pixel, at radius 1; settings with bloom alone and
  the three radii at the least integer, and the default settings with the bloom radius at the
  greatest integer; a black texture whose alpha falls from 1 at the left edge to 0 at the
  right edge, and two textures of one colour.
\<close>

definition defaults :: uniforms where
  "defaults =
     \<lparr>elapsed_time = 0, uv_size = float2 1920 1080, contrast = 1.2, teal_amount = 0.2,
      orange_amount = 0.15, bloom_intensity = 0.5, bloom_threshold = 0.8, bloom_radius = 2,
      halation_intensity = 0.4, halation_threshold = 0.95, halation_radius = 4,
      secondary_glow_intensity = 0.3, secondary_glow_threshold = 0.75,
      secondary_glow_radius = 3, grain_intensity = 0.04, shake_intensity = 0.002,
      shake_speed = 5.0\<rparr>"

definition noop :: uniforms where
  "noop =
     defaults\<lparr>contrast := 1, teal_amount := 0, orange_amount := 0, bloom_intensity := 0,
       halation_intensity := 0, secondary_glow_intensity := 0, grain_intensity := 0,
       shake_intensity := 0, elapsed_time := 7\<rparr>"

definition negative_bloom_radius :: uniforms where
  "negative_bloom_radius = defaults\<lparr>bloom_radius := - 1\<rparr>"

definition negative_halation_radius :: uniforms where
  "negative_halation_radius = defaults\<lparr>halation_radius := - 2\<rparr>"

definition negative_secondary_glow_radius :: uniforms where
  "negative_secondary_glow_radius = defaults\<lparr>secondary_glow_radius := - 3\<rparr>"

definition centre_bloom :: uniforms where
  "centre_bloom = noop\<lparr>bloom_intensity := 1, bloom_threshold := 0, bloom_radius := 0\<rparr>"

definition one_pixel_bloom :: uniforms where
  "one_pixel_bloom =
     noop\<lparr>uv_size := float2 1 1, bloom_intensity := 1, bloom_threshold := 0,
       bloom_radius := 1\<rparr>"

definition wrapped_radii :: uniforms where
  "wrapped_radii =
     centre_bloom\<lparr>bloom_radius := INT_MIN, halation_radius := INT_MIN,
       secondary_glow_radius := INT_MIN\<rparr>"

definition endless_radius :: uniforms where
  "endless_radius = defaults\<lparr>bloom_radius := INT_MAX\<rparr>"

definition fading :: texture2d where
  "fading p = float4 (float3 0 0 0) (1 - xcomp p)"

definition white_opaque :: texture2d where
  "white_opaque p = float4 (float3 1 1 1) 1"

definition grey_opaque :: texture2d where
  "grey_opaque p = float4 (float3 0.5 0.5 0.5) 1"

section \<open>Lemmas\<close>

subsection \<open>Machine integers\<close>

lemma sint_INT_MAX: "sint INT_MAX = 2147483647"
  by (simp add: INT_MAX_def)

lemma sint_INT_MIN: "sint INT_MIN = - 2147483648"
  by (simp add: INT_MIN_def)

lemma eq_INT_MAX: "(x = INT_MAX) = (sint x = 2147483647)"
  by (metis sint_INT_MAX word_eq_iff_signed)

lemma eq_INT_MIN: "(x = INT_MIN) = (sint x = - 2147483648)"
  by (metis sint_INT_MIN word_eq_iff_signed)

lemma sint32_range: "- 2147483648 \<le> sint (x::int32) \<and> sint x \<le> 2147483647"
  using sint_ge [of x] sint_lt [of x] by simp

lemma sint_succ: "sint (x::int32) < 2147483647 \<Longrightarrow> sint (x + 1) = sint x + 1"
  using sint32_range [of x]
  by (simp add: sint_word_ariths signed_take_bit_int_eq_self)

lemma sint_neg: "x \<noteq> INT_MIN \<Longrightarrow> sint (- x) = - sint x"
  using sint32_range [of x]
  by (simp add: eq_INT_MIN sint_word_ariths signed_take_bit_int_eq_self)

lemma neg_INT_MIN: "- INT_MIN = INT_MIN"
  by (simp add: INT_MIN_def)

lemma sint_word_of_int32:
  "- 2147483648 \<le> k \<Longrightarrow> k \<le> 2147483647 \<Longrightarrow> sint (word_of_int k :: int32) = k"
  by (simp add: sint_sbintrunc' signed_take_bit_int_eq_self)

lemma abs32_sle:
  assumes "x \<noteq> INT_MIN"
  shows "(abs32 x \<le>s r) = (\<bar>sint x\<bar> \<le> sint r)"
  using assms by (auto simp add: abs32_def word_sle_eq word_sless_alt sint_neg)

lemma abs32_INT_MIN: "abs32 INT_MIN = INT_MIN"
  by (simp add: abs32_def neg_INT_MIN)

lemma sint_max32: "sint (max32 a b) = max (sint a) (sint b)"
  by (simp add: max32_def word_sless_alt max_def)

lemma sint_max_radius:
  "sint (max_radius_for_loop P) =
     max (max (sint (bloom_radius P)) (sint (halation_radius P))) (sint (secondary_glow_radius P))"
  by (simp add: max_radius_for_loop_def sint_max32)

subsection \<open>Loops and sums\<close>

lemma for_loop_Some_hi:
  assumes "for_loop i hi body s = Some y"
  shows "hi \<noteq> INT_MAX"
proof (rule for_loop.raw_induct [where P = "\<lambda>i hi body s y. hi \<noteq> INT_MAX", OF _ assms])
  fix f i hi s y and body :: "int32 \<Rightarrow> 'a \<Rightarrow> 'a option"
  assume IH: "\<And>i hi body s y. f i hi body s = Some y \<Longrightarrow> hi \<noteq> INT_MAX"
    and eq: "(if i \<le>s hi then Option.bind (body i s) (f (i + 1) hi body) else Some s) = Some y"
  show "hi \<noteq> INT_MAX"
  proof (cases "i \<le>s hi")
    case True
    with eq obtain s' where "f (i + 1) hi body s' = Some y"
      by (auto simp add: bind_eq_Some_conv)
    then show ?thesis by (rule IH)
  next
    case False
    then show ?thesis
      using sint32_range [of i] by (auto simp add: word_sle_eq sint_INT_MAX)
  qed
qed

lemma for_loop_pure:
  assumes "hi \<noteq> INT_MAX"
  shows "for_loop i hi (\<lambda>x s. Some (g x s)) s
       = Some (fold g (map word_of_int [sint i..sint hi]) s)"
proof (induction "nat (sint hi + 1 - sint i)" arbitrary: i s)
  case 0
  then have "\<not> i \<le>s hi" by (simp add: word_sle_eq)
  moreover from 0 have "sint hi < sint i" by simp
  ultimately show ?case by (subst for_loop.simps) simp
next
  case (Suc n)
  then have le: "sint i \<le> sint hi" by simp
  have "sint hi < 2147483647"
    using assms sint32_range [of hi] by (simp add: eq_INT_MAX)
  with le have s: "sint (i + 1) = sint i + 1" by (intro sint_succ) simp
  with Suc have "n = nat (sint hi + 1 - sint (i + 1))" by simp
  from Suc.hyps(1) [OF this]
  have "for_loop (i + 1) hi (\<lambda>x s. Some (g x s)) (g i s)
      = Some (fold g (map word_of_int [sint i + 1..sint hi]) (g i s))"
    by (simp add: s)
  then show ?case
    using le by (subst for_loop.simps) (simp add: word_sle_eq upto_rec1 [of "sint i"])
qed

lemma scan_fold:
  assumes "max_radius_for_loop P \<noteq> INT_MAX"
  shows "scan img smp P suv px =
     Some (fold (\<lambda>x. fold (scan_step img smp P suv px x) (offsets P)) (offsets P) glow_init)"
proof -
  have inner:
    "(\<lambda>x. for_loop (- max_radius_for_loop P) (max_radius_for_loop P)
            (\<lambda>y s. Some (scan_step img smp P suv px x y s)))
     = (\<lambda>x s. Some (fold (scan_step img smp P suv px x) (offsets P) s))"
    unfolding offsets_def by (intro ext) (rule for_loop_pure [OF assms])
  show ?thesis
    unfolding scan_def inner
    by (simp only: for_loop_pure [OF assms] offsets_def)
qed

lemma scan_None: "(scan img smp P suv px = None) = (max_radius_for_loop P = INT_MAX)"
proof
  assume "scan img smp P suv px = None"
  then show "max_radius_for_loop P = INT_MAX"
    using scan_fold [of P img smp suv px] by auto
next
  assume m: "max_radius_for_loop P = INT_MAX"
  show "scan img smp P suv px = None"
  proof (cases "scan img smp P suv px")
    case (Some s)
    then have "max_radius_for_loop P \<noteq> INT_MAX"
      unfolding scan_def by (rule for_loop_Some_hi)
    with m show ?thesis by simp
  qed simp
qed

lemma scan_Some_max:
  "scan img smp P suv px = Some s \<Longrightarrow> max_radius_for_loop P \<noteq> INT_MAX"
  using scan_None [of img smp P suv px] by auto

lemma scan_Some_fold:
  assumes "scan img smp P suv px = Some s"
  shows "s = fold (\<lambda>x. fold (scan_step img smp P suv px x) (offsets P)) (offsets P) glow_init"
  using assms scan_fold [OF scan_Some_max [OF assms], of img smp suv px] by simp

lemma offsets_regular:
  assumes "max_radius_for_loop P \<noteq> INT_MIN"
  shows "offsets P =
     map word_of_int [- sint (max_radius_for_loop P)..sint (max_radius_for_loop P)]"
  by (simp add: offsets_def sint_neg [OF assms])

lemma offsets_INT_MIN:
  assumes "max_radius_for_loop P = INT_MIN"
  shows "offsets P = [INT_MIN]"
  by (simp add: offsets_def assms neg_INT_MIN sint_INT_MIN INT_MIN_def)

lemma fold_additive:
  fixes g :: "'s \<Rightarrow> 'a::comm_monoid_add"
  assumes "\<And>y s. g (step y s) = g s + d y"
  shows "g (fold step ys s) = g s + (\<Sum>y\<leftarrow>ys. d y)"
  using assms by (induction ys arbitrary: s) (simp_all add: add.assoc)

lemma fold2_additive:
  fixes g :: "'s \<Rightarrow> 'a::comm_monoid_add"
  assumes "\<And>x y s. g (step x y s) = g s + d x y"
  shows "g (fold (\<lambda>x. fold (step x) ys) xs s) = g s + (\<Sum>x\<leftarrow>xs. \<Sum>y\<leftarrow>ys. d x y)"
proof (induction xs arbitrary: s)
  case Nil
  then show ?case by simp
next
  case (Cons x xs)
  have "g (fold (step x) ys s) = g s + (\<Sum>y\<leftarrow>ys. d x y)"
    by (rule fold_additive) (rule assms)
  then show ?case by (simp add: Cons.IH add.assoc)
qed

lemma sum_list_words:
  fixes f :: "int32 \<Rightarrow> 'a::comm_monoid_add"
  shows "(\<Sum>x\<leftarrow>map word_of_int [i..j]. f x) = (\<Sum>k\<in>{i..j}. f (word_of_int k))"
  by (simp add: comp_def sum_list_distinct_conv_sum_set)

subsection \<open>The scan in closed form\<close>

lemma times_one3: "c * float3 1 1 1 = c"
  by (cases c) (simp add: times_float3_def)

lemma zero3: "float3 0 0 0 = 0"
  by (simp add: zero_float3_def)

lemma sum_square_restrict:
  fixes t :: "int \<Rightarrow> int \<Rightarrow> 'a::comm_monoid_add"
  assumes "r \<le> R"
  shows "(\<Sum>x\<in>{-R..R}. \<Sum>y\<in>{-R..R}. if \<bar>x\<bar> \<le> r \<and> \<bar>y\<bar> \<le> r then t x y else 0)
       = (\<Sum>x\<in>{-r..r}. \<Sum>y\<in>{-r..r}. t x y)"
proof -
  have inner: "(\<Sum>y\<in>{-R..R}. if \<bar>x\<bar> \<le> r \<and> \<bar>y\<bar> \<le> r then t x y else 0)
      = (if \<bar>x\<bar> \<le> r then (\<Sum>y\<in>{-r..r}. t x y) else 0)" for x
  proof (cases "\<bar>x\<bar> \<le> r")
    case True
    have "(\<Sum>y\<in>{-R..R}. if \<bar>y\<bar> \<le> r then t x y else 0) = (\<Sum>y\<in>{-r..r}. t x y)"
      using assms by (intro sum.mono_neutral_cong_right) auto
    with True show ?thesis by simp
  next
    case False
    then show ?thesis by simp
  qed
  have "(\<Sum>x\<in>{-R..R}. if \<bar>x\<bar> \<le> r then (\<Sum>y\<in>{-r..r}. t x y) else 0)
      = (\<Sum>x\<in>{-r..r}. \<Sum>y\<in>{-r..r}. t x y)"
    using assms by (intro sum.mono_neutral_cong_right) auto
  then show ?thesis by (simp add: inner)
qed

lemma bloom_accum_scan_step:
  "bloom_accum (scan_step img smp P suv px x y s) =
     bloom_accum s +
     (if bloom_intensity P > 0 \<and> abs32 x \<le>s bloom_radius P \<and> abs32 y \<le>s bloom_radius P
      then weighted (bloom_threshold P) (float3 1 1 1)
             (sample_color_at img smp suv px (sint x) (sint y))
      else 0)"
  by (simp add: scan_step_def Let_def weighted_def sample_color_at_def luma_def times_one3)

lemma halation_accum_scan_step:
  "halation_accum (scan_step img smp P suv px x y s) =
     halation_accum s +
     (if halation_intensity P > 0 \<and> abs32 x \<le>s halation_radius P
         \<and> abs32 y \<le>s halation_radius P
      then weighted (halation_threshold P) (float3 1 0.2 0.1)
             (sample_color_at img smp suv px (sint x) (sint y))
      else 0)"
  by (simp add: scan_step_def Let_def weighted_def sample_color_at_def luma_def)

lemma secondary_glow_accum_scan_step:
  "secondary_glow_accum (scan_step img smp P suv px x y s) =
     secondary_glow_accum s +
     (if secondary_glow_intensity P > 0 \<and> abs32 x \<le>s secondary_glow_radius P
         \<and> abs32 y \<le>s secondary_glow_radius P
      then weighted (secondary_glow_threshold P) (float3 0.6 0.8 1)
             (sample_color_at img smp suv px (sint x) (sint y))
      else 0)"
  by (simp add: scan_step_def Let_def weighted_def sample_color_at_def luma_def)

lemma bloom_sample_count_scan_step:
  "bloom_sample_count (scan_step img smp P suv px x y s) =
     bloom_sample_count s +
     (if bloom_intensity P > 0 \<and> abs32 x \<le>s bloom_radius P \<and> abs32 y \<le>s bloom_radius P
      then 1 else 0)"
  by (simp add: scan_step_def Let_def)

lemma halation_sample_count_scan_step:
  "halation_sample_count (scan_step img smp P suv px x y s) =
     halation_sample_count s +
     (if halation_intensity P > 0 \<and> abs32 x \<le>s halation_radius P
         \<and> abs32 y \<le>s halation_radius P
      then 1 else 0)"
  by (simp add: scan_step_def Let_def)

lemma secondary_glow_sample_count_scan_step:
  "secondary_glow_sample_count (scan_step img smp P suv px x y s) =
     secondary_glow_sample_count s +
     (if secondary_glow_intensity P > 0 \<and> abs32 x \<le>s secondary_glow_radius P
         \<and> abs32 y \<le>s secondary_glow_radius P
      then 1 else 0)"
  by (simp add: scan_step_def Let_def)

text \<open>
  A projection of the state that every step increases by an amount that is zero outside the
  square of radius \<open>rw\<close>, after a scan whose bound is not the least integer.
\<close>

lemma scan_projection:
  fixes g :: "glow_state \<Rightarrow> 'a::comm_monoid_add"
  assumes step: "\<And>x y s. g (scan_step img smp P suv px x y s) =
                   g s + (if on \<and> abs32 x \<le>s rw \<and> abs32 y \<le>s rw then t (sint x) (sint y) else 0)"
    and init: "g glow_init = 0"
    and r: "sint rw \<le> sint (max_radius_for_loop P)"
    and regular: "max_radius_for_loop P \<noteq> INT_MIN"
    and s: "scan img smp P suv px = Some s"
  shows "g s = (if on then (\<Sum>x\<in>{- sint rw..sint rw}. \<Sum>y\<in>{- sint rw..sint rw}. t x y) else 0)"
proof -
  let ?R = "sint (max_radius_for_loop P)"
  let ?d = "\<lambda>x y. if on \<and> abs32 x \<le>s rw \<and> abs32 y \<le>s rw then t (sint x) (sint y) else 0"
  let ?e = "\<lambda>x y. if on \<and> \<bar>x\<bar> \<le> sint rw \<and> \<bar>y\<bar> \<le> sint rw then t x y else 0"
  have "s = fold (\<lambda>x. fold (scan_step img smp P suv px x) (offsets P)) (offsets P) glow_init"
    using s by (rule scan_Some_fold)
  then have "g s = g glow_init + (\<Sum>x\<leftarrow>offsets P. \<Sum>y\<leftarrow>offsets P. ?d x y)"
    by (simp only: fold2_additive [of g, OF step])
  also have "\<dots> = (\<Sum>x\<in>{- ?R..?R}. \<Sum>y\<in>{- ?R..?R}. ?d (word_of_int x) (word_of_int y))"
    by (simp only: init offsets_regular [OF regular] sum_list_words add.left_neutral)
  also have "\<dots> = (\<Sum>x\<in>{- ?R..?R}. \<Sum>y\<in>{- ?R..?R}. ?e x y)"
  proof (intro sum.cong refl)
    fix x y assume x: "x \<in> {- ?R..?R}" and y: "y \<in> {- ?R..?R}"
    have R: "- 2147483648 < ?R" "?R \<le> 2147483647"
      using regular sint32_range [of "max_radius_for_loop P"] by (simp_all add: eq_INT_MIN)
    with x y have sx: "sint (word_of_int x :: int32) = x" and sy: "sint (word_of_int y :: int32) = y"
      by (simp_all add: sint_word_of_int32)
    from x y R have "(word_of_int x :: int32) \<noteq> INT_MIN" "(word_of_int y :: int32) \<noteq> INT_MIN"
      by (simp_all add: eq_INT_MIN sx sy)
    then show "?d (word_of_int x) (word_of_int y) = ?e x y"
      by (simp add: abs32_sle sx sy)
  qed
  also have "\<dots> = (if on then (\<Sum>x\<in>{- sint rw..sint rw}. \<Sum>y\<in>{- sint rw..sint rw}. t x y) else 0)"
  proof (cases on)
    case True
    then show ?thesis using sum_square_restrict [OF r, of t] by simp
  next
    case False
    then show ?thesis by simp
  qed
  finally show ?thesis .
qed

text \<open>The same projection when the scan bound is the least integer: one step, at that offset.\<close>

lemma scan_projection_INT_MIN:
  fixes g :: "glow_state \<Rightarrow> 'a::comm_monoid_add"
  assumes step: "\<And>x y s. g (scan_step img smp P suv px x y s) =
                   g s + (if on \<and> abs32 x \<le>s rw \<and> abs32 y \<le>s rw then t (sint x) (sint y) else 0)"
    and init: "g glow_init = 0"
    and least: "max_radius_for_loop P = INT_MIN"
    and s: "scan img smp P suv px = Some s"
  shows "g s = (if on then t (- 2147483648) (- 2147483648) else 0)"
proof -
  have "s = fold (\<lambda>x. fold (scan_step img smp P suv px x) (offsets P)) (offsets P) glow_init"
    using s by (rule scan_Some_fold)
  then show ?thesis
    by (simp add: offsets_INT_MIN [OF least] step init abs32_INT_MIN word_sle_eq sint_INT_MIN
        sint32_range)
qed

text \<open>A projection that no step changes keeps its initial value.\<close>

lemma scan_unchanged:
  fixes g :: "glow_state \<Rightarrow> 'a::comm_monoid_add"
  assumes step: "\<And>x y s. g (scan_step img smp P suv px x y s) = g s"
    and s: "scan img smp P suv px = Some s"
  shows "g s = g glow_init"
proof -
  have "s = fold (\<lambda>x. fold (scan_step img smp P suv px x) (offsets P)) (offsets P) glow_init"
    using s by (rule scan_Some_fold)
  moreover have "g (fold (\<lambda>x. fold (scan_step img smp P suv px x) ys) xs s0) = g s0" for xs ys s0
    using fold2_additive [of g "scan_step img smp P suv px" "\<lambda>x y. 0" ys xs s0] step by simp
  ultimately show ?thesis by simp
qed

lemma bloom_accum_scan:
  assumes "scan img smp P suv px = Some s" and "max_radius_for_loop P \<noteq> INT_MIN"
  shows "bloom_accum s =
     (if bloom_intensity P > 0
      then (\<Sum>x\<in>{- sint (bloom_radius P)..sint (bloom_radius P)}.
            \<Sum>y\<in>{- sint (bloom_radius P)..sint (bloom_radius P)}.
              weighted (bloom_threshold P) (float3 1 1 1) (sample_color_at img smp suv px x y))
      else 0)"
  by (rule scan_projection [OF bloom_accum_scan_step _ _ assms(2,1)])
     (simp_all add: glow_init_def zero3 sint_max_radius)

lemma halation_accum_scan:
  assumes "scan img smp P suv px = Some s" and "max_radius_for_loop P \<noteq> INT_MIN"
  shows "halation_accum s =
     (if halation_intensity P > 0
      then (\<Sum>x\<in>{- sint (halation_radius P)..sint (halation_radius P)}.
            \<Sum>y\<in>{- sint (halation_radius P)..sint (halation_radius P)}.
              weighted (halation_threshold P) (float3 1 0.2 0.1)
                (sample_color_at img smp suv px x y))
      else 0)"
  by (rule scan_projection [OF halation_accum_scan_step _ _ assms(2,1)])
     (simp_all add: glow_init_def zero3 sint_max_radius)

lemma secondary_glow_accum_scan:
  assumes "scan img smp P suv px = Some s" and "max_radius_for_loop P \<noteq> INT_MIN"
  shows "secondary_glow_accum s =
     (if secondary_glow_intensity P > 0
      then (\<Sum>x\<in>{- sint (secondary_glow_radius P)..sint (secondary_glow_radius P)}.
            \<Sum>y\<in>{- sint (secondary_glow_radius P)..sint (secondary_glow_radius P)}.
              weighted (secondary_glow_threshold P) (float3 0.6 0.8 1)
                (sample_color_at img smp suv px x y))
      else 0)"
  by (rule scan_projection [OF secondary_glow_accum_scan_step _ _ assms(2,1)])
     (simp_all add: glow_init_def zero3 sint_max_radius)

lemma count_square:
  "(\<Sum>x\<in>{-r..r}. \<Sum>y\<in>{-r..r}. (1::real)) = (if 0 \<le> r then (2 * real_of_int r + 1)\<^sup>2 else 0)"
  by (simp add: power2_eq_square)

lemma square_pos: "0 \<le> r \<Longrightarrow> 0 < (2 * real_of_int r + 1)\<^sup>2"
  by simp

lemma bloom_sample_count_scan:
  assumes "scan img smp P suv px = Some s" and "max_radius_for_loop P \<noteq> INT_MIN"
  shows "bloom_sample_count s =
     (if bloom_intensity P > 0 \<and> 0 \<le> sint (bloom_radius P)
      then (2 * real_of_int (sint (bloom_radius P)) + 1)\<^sup>2 else 0)"
proof -
  have "bloom_sample_count s =
     (if bloom_intensity P > 0
      then (\<Sum>x\<in>{- sint (bloom_radius P)..sint (bloom_radius P)}.
            \<Sum>y\<in>{- sint (bloom_radius P)..sint (bloom_radius P)}. 1)
      else 0)"
    by (rule scan_projection [OF bloom_sample_count_scan_step _ _ assms(2,1)])
       (simp_all add: glow_init_def sint_max_radius)
  then show ?thesis by (simp only: count_square) simp
qed

lemma halation_sample_count_scan:
  assumes "scan img smp P suv px = Some s" and "max_radius_for_loop P \<noteq> INT_MIN"
  shows "halation_sample_count s =
     (if halation_intensity P > 0 \<and> 0 \<le> sint (halation_radius P)
      then (2 * real_of_int (sint (halation_radius P)) + 1)\<^sup>2 else 0)"
proof -
  have "halation_sample_count s =
     (if halation_intensity P > 0
      then (\<Sum>x\<in>{- sint (halation_radius P)..sint (halation_radius P)}.
            \<Sum>y\<in>{- sint (halation_radius P)..sint (halation_radius P)}. 1)
      else 0)"
    by (rule scan_projection [OF halation_sample_count_scan_step _ _ assms(2,1)])
       (simp_all add: glow_init_def sint_max_radius)
  then show ?thesis by (simp only: count_square) simp
qed

lemma secondary_glow_sample_count_scan:
  assumes "scan img smp P suv px = Some s" and "max_radius_for_loop P \<noteq> INT_MIN"
  shows "secondary_glow_sample_count s =
     (if secondary_glow_intensity P > 0 \<and> 0 \<le> sint (secondary_glow_radius P)
      then (2 * real_of_int (sint (secondary_glow_radius P)) + 1)\<^sup>2 else 0)"
proof -
  have "secondary_glow_sample_count s =
     (if secondary_glow_intensity P > 0
      then (\<Sum>x\<in>{- sint (secondary_glow_radius P)..sint (secondary_glow_radius P)}.
            \<Sum>y\<in>{- sint (secondary_glow_radius P)..sint (secondary_glow_radius P)}. 1)
      else 0)"
    by (rule scan_projection [OF secondary_glow_sample_count_scan_step _ _ assms(2,1)])
       (simp_all add: glow_init_def sint_max_radius)
  then show ?thesis by (simp only: count_square) simp
qed

text \<open>An effect whose intensity is not above 0, whatever the scan bound.\<close>

lemma bloom_off:
  assumes "scan img smp P suv px = Some s" and "bloom_intensity P \<le> 0"
  shows "bloom_sample_count s = 0" and "bloom_accum s = float3 0 0 0"
proof -
  show "bloom_sample_count s = 0"
    using scan_unchanged [of bloom_sample_count, OF _ assms(1)] assms(2)
    by (simp add: bloom_sample_count_scan_step glow_init_def)
  show "bloom_accum s = float3 0 0 0"
    using scan_unchanged [of bloom_accum, OF _ assms(1)] assms(2)
    by (simp add: bloom_accum_scan_step glow_init_def)
qed

lemma halation_off:
  assumes "scan img smp P suv px = Some s" and "halation_intensity P \<le> 0"
  shows "halation_sample_count s = 0" and "halation_accum s = float3 0 0 0"
proof -
  show "halation_sample_count s = 0"
    using scan_unchanged [of halation_sample_count, OF _ assms(1)] assms(2)
    by (simp add: halation_sample_count_scan_step glow_init_def)
  show "halation_accum s = float3 0 0 0"
    using scan_unchanged [of halation_accum, OF _ assms(1)] assms(2)
    by (simp add: halation_accum_scan_step glow_init_def)
qed

lemma secondary_glow_off:
  assumes "scan img smp P suv px = Some s" and "secondary_glow_intensity P \<le> 0"
  shows "secondary_glow_sample_count s = 0" and "secondary_glow_accum s = float3 0 0 0"
proof -
  show "secondary_glow_sample_count s = 0"
    using scan_unchanged [of secondary_glow_sample_count, OF _ assms(1)] assms(2)
    by (simp add: secondary_glow_sample_count_scan_step glow_init_def)
  show "secondary_glow_accum s = float3 0 0 0"
    using scan_unchanged [of secondary_glow_accum, OF _ assms(1)] assms(2)
    by (simp add: secondary_glow_accum_scan_step glow_init_def)
qed

text \<open>An effect of negative radius, when the scan bound is not the least integer.\<close>

lemma bloom_negative:
  assumes "scan img smp P suv px = Some s" and "max_radius_for_loop P \<noteq> INT_MIN"
    and "bloom_radius P <s 0"
  shows "bloom_sample_count s = 0" and "bloom_accum s = float3 0 0 0"
  using assms(3)
  by (simp_all add: bloom_sample_count_scan [OF assms(1,2)] bloom_accum_scan [OF assms(1,2)]
      word_sless_alt zero3)

lemma halation_negative:
  assumes "scan img smp P suv px = Some s" and "max_radius_for_loop P \<noteq> INT_MIN"
    and "halation_radius P <s 0"
  shows "halation_sample_count s = 0" and "halation_accum s = float3 0 0 0"
  using assms(3)
  by (simp_all add: halation_sample_count_scan [OF assms(1,2)]
      halation_accum_scan [OF assms(1,2)] word_sless_alt zero3)

lemma secondary_glow_negative:
  assumes "scan img smp P suv px = Some s" and "max_radius_for_loop P \<noteq> INT_MIN"
    and "secondary_glow_radius P <s 0"
  shows "secondary_glow_sample_count s = 0" and "secondary_glow_accum s = float3 0 0 0"
  using assms(3)
  by (simp_all add: secondary_glow_sample_count_scan [OF assms(1,2)]
      secondary_glow_accum_scan [OF assms(1,2)] word_sless_alt zero3)

text \<open>
  When the scan bound is the least integer, all three radii are, the loops run once at the
  offset of the least integer, and every effect whose intensity is above 0 counts that sample.
\<close>

lemma bloom_sample_count_INT_MIN:
  assumes "scan img smp P suv px = Some s" and "max_radius_for_loop P = INT_MIN"
  shows "bloom_sample_count s = (if bloom_intensity P > 0 then 1 else 0)"
proof -
  have "sint (bloom_radius P) \<le> sint (max_radius_for_loop P)"
    by (simp add: sint_max_radius)
  then have "bloom_radius P = INT_MIN"
    using assms(2) sint32_range [of "bloom_radius P"] by (simp add: eq_INT_MIN sint_INT_MIN)
  then show ?thesis
    using scan_projection_INT_MIN [of bloom_sample_count img smp P suv px "bloom_intensity P > 0"
        INT_MIN "\<lambda>x y. 1", OF _ _ assms(2,1)]
    by (simp add: bloom_sample_count_scan_step glow_init_def)
qed

lemma bloom_accum_INT_MIN:
  assumes "scan img smp P suv px = Some s" and "max_radius_for_loop P = INT_MIN"
  shows "bloom_accum s =
     (if bloom_intensity P > 0
      then weighted (bloom_threshold P) (float3 1 1 1)
             (sample_color_at img smp suv px (- 2147483648) (- 2147483648))
      else 0)"
proof -
  have "sint (bloom_radius P) \<le> sint (max_radius_for_loop P)"
    by (simp add: sint_max_radius)
  then have "bloom_radius P = INT_MIN"
    using assms(2) sint32_range [of "bloom_radius P"] by (simp add: eq_INT_MIN sint_INT_MIN)
  then show ?thesis
    using scan_projection_INT_MIN [of bloom_accum img smp P suv px "bloom_intensity P > 0"
        INT_MIN "\<lambda>x y. weighted (bloom_threshold P) (float3 1 1 1)
                          (sample_color_at img smp suv px x y)", OF _ _ assms(2,1)]
    by (simp add: bloom_accum_scan_step glow_init_def zero3)
qed

subsection \<open>Vector arithmetic and sums\<close>

lemma add_zero2: "uv + float2 0 0 = uv"
  by (cases uv) (simp add: plus_float2_def)

lemma add_splat_zero: "c + splat3 0 = c"
  by (cases c) (simp add: splat3_def plus_float3_def)

lemma BlendScreen_zero: "BlendScreen final (float3 0 0 0 * splat3 i) = final"
  by (cases final)
    (simp add: BlendScreen_def splat3_def times_float3_def minus_float3_def)

lemma add_zero_scaled: "final + float3 0 0 0 * splat3 i = final"
  by (cases final) (simp add: splat3_def times_float3_def plus_float3_def)

lemma red_sum: "red (sum f A) = (\<Sum>a\<in>A. red (f a))"
  by (induction A rule: infinite_finite_induct) (simp_all add: zero_float3_def plus_float3_def)

lemma green_sum: "green (sum f A) = (\<Sum>a\<in>A. green (f a))"
  by (induction A rule: infinite_finite_induct) (simp_all add: zero_float3_def plus_float3_def)

lemma blue_sum: "blue (sum f A) = (\<Sum>a\<in>A. blue (f a))"
  by (induction A rule: infinite_finite_induct) (simp_all add: zero_float3_def plus_float3_def)

lemma sum_minus_one_to_one:
  fixes f :: "int \<Rightarrow> 'a::comm_monoid_add"
  shows "(\<Sum>x\<in>{- 1..1}. f x) = f (- 1) + f 0 + f 1"
proof -
  have "{- 1..1::int} = {- 1, 0, 1}" by auto
  then show ?thesis by (simp add: add.assoc)
qed

lemma const_square_mean:
  assumes "0 \<le> r"
  shows "(\<Sum>x\<in>{-r..r}. \<Sum>y\<in>{-r..r}. (w::float3)) / splat3 ((2 * real_of_int r + 1)\<^sup>2) = w"
proof -
  have nz: "2 * real_of_int r + 1 \<noteq> 0" using assms by simp
  have k: "real (nat (2 * r + 1)) = 2 * real_of_int r + 1" using assms by simp
  show ?thesis
    using nz
    by (intro float3.expand)
      (simp add: divide_float3_def splat3_def red_sum green_sum blue_sum power2_eq_square k)
qed

subsection \<open>Intrinsic functions\<close>

lemma hermite_mono:
  fixes a b :: real
  assumes "0 \<le> a" "a \<le> b" "b \<le> 1"
  shows "a * a * (3 - 2 * a) \<le> b * b * (3 - 2 * b)"
proof -
  have aa: "a * a \<le> a" using assms by (simp add: mult_left_le)
  have bb: "b * b \<le> b" using assms by (simp add: mult_left_le)
  have ab: "a * b \<le> a" using assms by (simp add: mult_left_le)
  have "0 \<le> 3 * (a + b) - 2 * (a * a + a * b + b * b)"
    using assms aa bb ab by simp
  then have "0 \<le> (b - a) * (3 * (a + b) - 2 * (a * a + a * b + b * b))"
    using assms by (intro mult_nonneg_nonneg) simp_all
  also have "\<dots> = b * b * (3 - 2 * b) - a * a * (3 - 2 * a)"
    by (simp add: algebra_simps)
  finally show ?thesis by simp
qed

lemma hermite_strict_mono:
  fixes a b :: real
  assumes "0 \<le> a" "a < b" "b \<le> 1"
  shows "a * a * (3 - 2 * a) < b * b * (3 - 2 * b)"
proof -
  have aa: "a * a \<le> a" using assms by (simp add: mult_left_le)
  have bb: "b * b \<le> b" using assms by (simp add: mult_left_le)
  have ab: "a * b \<le> a" using assms by (simp add: mult_left_le)
  have "0 < 3 * (a + b) - 2 * (a * a + a * b + b * b)"
    using assms aa bb ab by argo
  then have "0 < (b - a) * (3 * (a + b) - 2 * (a * a + a * b + b * b))"
    using assms by (intro mult_pos_pos) simp_all
  also have "\<dots> = b * b * (3 - 2 * b) - a * a * (3 - 2 * a)"
    by (simp add: algebra_simps)
  finally show ?thesis by simp
qed

lemma clamp1_unit: "0 \<le> clamp1 x 0 1 \<and> clamp1 x 0 1 \<le> 1"
  by (simp add: clamp1_def)

lemma clamp1_mono: "x \<le> y \<Longrightarrow> clamp1 x 0 1 \<le> clamp1 y 0 1"
  by (simp add: clamp1_def min_def max_def)

lemma smoothstep_orange_shadow: "l \<le> 0 \<Longrightarrow> smoothstep 0.4 0.0 l = 1"
  by (simp add: smoothstep_def Let_def clamp1_def field_simps)

lemma smoothstep_orange_bright: "0.4 \<le> l \<Longrightarrow> smoothstep 0.4 0.0 l = 0"
  by (simp add: smoothstep_def Let_def clamp1_def field_simps max_def)

lemma smoothstep_orange_antimono:
  assumes "l1 \<le> l2"
  shows "smoothstep 0.4 0.0 l2 \<le> smoothstep 0.4 0.0 l1"
proof -
  have "(l2 - 0.4) / (0.0 - 0.4) \<le> (l1 - 0.4) / (0.0 - 0.4)"
    using assms by (simp add: field_simps)
  then have "clamp1 ((l2 - 0.4) / (0.0 - 0.4)) 0 1 \<le> clamp1 ((l1 - 0.4) / (0.0 - 0.4)) 0 1"
    by (rule clamp1_mono)
  then show ?thesis
    unfolding smoothstep_def Let_def
    using clamp1_unit by (intro hermite_mono) auto
qed

lemma smoothstep_orange_strict:
  assumes "0 \<le> l1" "l1 < l2" "l2 \<le> 0.4"
  shows "smoothstep 0.4 0.0 l2 < smoothstep 0.4 0.0 l1"
proof -
  have t: "clamp1 ((l - 0.4) / (0.0 - 0.4)) 0 1 = 1 - 5 / 2 * l" if "0 \<le> l" "l \<le> 0.4" for l :: real
    using that by (simp add: clamp1_def field_simps min_def max_def)
  have "1 - 5 / 2 * l2 < 1 - 5 / 2 * l1" using assms by simp
  moreover have "0 \<le> 1 - 5 / 2 * l2" "1 - 5 / 2 * l1 \<le> 1" using assms by simp_all
  ultimately have "(1 - 5 / 2 * l2) * (1 - 5 / 2 * l2) * (3 - 2 * (1 - 5 / 2 * l2))
      < (1 - 5 / 2 * l1) * (1 - 5 / 2 * l1) * (3 - 2 * (1 - 5 / 2 * l1))"
    by (intro hermite_strict_mono)
  moreover have "smoothstep 0.4 0.0 l1 =
      (1 - 5 / 2 * l1) * (1 - 5 / 2 * l1) * (3 - 2 * (1 - 5 / 2 * l1))"
    using assms by (simp only: smoothstep_def Let_def) (simp only: t)
  moreover have "smoothstep 0.4 0.0 l2 =
      (1 - 5 / 2 * l2) * (1 - 5 / 2 * l2) * (3 - 2 * (1 - 5 / 2 * l2))"
    using assms by (simp only: smoothstep_def Let_def) (simp only: t)
  ultimately show ?thesis by (simp only:)
qed

lemma pow_one: 
  "0 \<le> red c \<Longrightarrow> 0 \<le> green c \<Longrightarrow> 0 \<le> blue c \<Longrightarrow> pow c (float3 1 1 1) = c"
  by (cases c) (simp add: pow_def)

lemma lerp_zero: "lerp p q 0 = p"
  by (cases p) (simp add: lerp_def splat3_def plus_float3_def times_float3_def)

lemma clamp_unit:
  "0 \<le> red c \<Longrightarrow> red c \<le> 1 \<Longrightarrow> 0 \<le> green c \<Longrightarrow> green c \<le> 1 \<Longrightarrow> 0 \<le> blue c \<Longrightarrow> blue c \<le> 1
   \<Longrightarrow> clamp c 0 1 = c"
  by (cases c) (simp add: clamp_def clamp1_def)

subsection \<open>Sampling\<close>

lemma sample_inside:
  assumes "\<not> outside (xcomp p)" "\<not> outside (ycomp p)"
  shows "Sample img smp p = img p"
  using assms by (cases p) (simp add: Sample_def outside_def clamp1_def)

lemma Sample_normalized:
  "(\<forall>p. normalized (img p)) \<Longrightarrow> normalized (Sample img textureSampler uv)"
  by (simp add: Sample_def textureSampler_def normalized_def)

lemma centre_sample: "sample_color_at img smp suv px 0 0 = rgb (Sample img smp suv)"
  by (cases suv) (simp add: sample_color_at_def plus_float2_def times_float2_def)

lemma uniform_sample_color_at:
  assumes "\<forall>p. rgb (img p) = C"
    and "\<forall>x y. \<bar>x\<bar> \<le> R \<and> \<bar>y\<bar> \<le> R \<longrightarrow>
           \<not> outside (xcomp (suv + float2 (real_of_int x) (real_of_int y) * px))
           \<and> \<not> outside (ycomp (suv + float2 (real_of_int x) (real_of_int y) * px))"
    and "r \<le> R"
  shows "\<forall>x y. \<bar>x\<bar> \<le> r \<and> \<bar>y\<bar> \<le> r \<longrightarrow> sample_color_at img smp suv px x y = C"
  using assms by (auto simp add: sample_color_at_def sample_inside)

lemma uniform_square_sum:
  assumes "\<forall>x y. \<bar>x\<bar> \<le> r \<and> \<bar>y\<bar> \<le> r \<longrightarrow> sample_color_at img smp suv px x y = C"
  shows "(\<Sum>x\<in>{-r..r}. \<Sum>y\<in>{-r..r}. weighted t tint (sample_color_at img smp suv px x y))
       = (\<Sum>x\<in>{-r..r}. \<Sum>y\<in>{-r..r}. weighted t tint C)"
  using assms by (intro sum.cong refl) (simp add: abs_le_iff)

subsection \<open>The shader in closed form\<close>

lemma normalize_accum_Some: "normalize_accum accum n = Some (if n > 0 then accum / splat3 n else accum)"
  by (simp add: normalize_accum_def div_assign_def)

lemma shake_offset_off: "shake_intensity P \<le> 0 \<Longrightarrow> shake_offset P = float2 0 0"
  by (simp add: shake_offset_def)

lemma scan_step_shake [simp]:
  "scan_step img smp (P\<lparr>shake_intensity := v\<rparr>) = scan_step img smp P"
  by (intro ext) (simp add: scan_step_def Let_def)

lemma scan_shake [simp]: "scan img smp (P\<lparr>shake_intensity := v\<rparr>) = scan img smp P"
  by (intro ext) (simp add: scan_def max_radius_for_loop_def)

lemma graded_color_shake [simp]: "graded_color (P\<lparr>shake_intensity := v\<rparr>) = graded_color P"
  by (intro ext) (simp add: graded_color_def Let_def)

lemma final_color_shake [simp]: "final_color (P\<lparr>shake_intensity := v\<rparr>) = final_color P"
  by (intro ext)
    (simp add: final_color_def add_grain_def screen_secondary_glow_def screen_halation_def
      add_bloom_def Let_def)

lemma graded_color_identity:
  assumes "contrast P = 1" "teal_amount P = 0" "orange_amount P = 0"
    and "0 \<le> red c" "0 \<le> green c" "0 \<le> blue c"
  shows "graded_color P c = c"
  using assms by (simp add: graded_color_def Let_def pow_one lerp_zero)

lemma final_color_off:
  assumes "bloom_intensity P = 0" "halation_intensity P = 0" "secondary_glow_intensity P = 0"
    and "grain_intensity P = 0"
  shows "final_color P suv graded b h sg = graded"
  using assms
  by (simp add: final_color_def add_grain_def screen_secondary_glow_def screen_halation_def
      add_bloom_def Let_def add_splat_zero)

lemma film_look_Some:
  assumes "scan img smp P (uv + shake_offset P) px = Some s"
  shows "film_look smp px img P uv =
     Some (float4
       (clamp (final_color P (uv + shake_offset P)
          (graded_color P (rgb (Sample img smp (uv + shake_offset P))))
          (if bloom_sample_count s > 0
           then bloom_accum s / splat3 (bloom_sample_count s) else bloom_accum s)
          (if halation_sample_count s > 0
           then halation_accum s / splat3 (halation_sample_count s) else halation_accum s)
          (if secondary_glow_sample_count s > 0
           then secondary_glow_accum s / splat3 (secondary_glow_sample_count s)
           else secondary_glow_accum s)) 0 1)
       (alpha (Sample img smp (uv + shake_offset P))))"
  by (simp add: film_look_def Let_def assms normalize_accum_Some)

lemma film_look_None:
  "(film_look smp px img P uv = None) = (max_radius_for_loop P = INT_MAX)"
proof (cases "scan img smp P (uv + shake_offset P) px")
  case None
  then show ?thesis
    using scan_None [of img smp P "uv + shake_offset P" px]
    by (simp add: film_look_def Let_def)
next
  case (Some s)
  then show ?thesis
    using scan_Some_max [OF Some] by (simp add: film_look_Some)
qed

lemma film_look_alpha:
  "map_option alpha (film_look smp px img P uv) =
     (if max_radius_for_loop P = INT_MAX then None
      else Some (alpha (Sample img smp (uv + shake_offset P))))"
proof (cases "scan img smp P (uv + shake_offset P) px")
  case None
  then show ?thesis
    using film_look_None [of smp px img P uv] by (simp add: scan_None)
next
  case (Some s)
  then show ?thesis
    using scan_Some_max [OF Some] by (simp add: film_look_Some)
qed

lemma film_look_shift:
  "film_look smp px img P uv = film_look smp px img (P\<lparr>shake_intensity := 0\<rparr>) (uv + shake_offset P)"
  by (simp add: film_look_def shake_offset_off add_zero2)

lemma regular_bloom: "0 \<le>s bloom_radius P \<Longrightarrow> max_radius_for_loop P \<noteq> INT_MIN"
  by (simp add: eq_INT_MIN sint_max_radius word_sle_eq)

lemma regular_halation: "0 \<le>s halation_radius P \<Longrightarrow> max_radius_for_loop P \<noteq> INT_MIN"
  by (simp add: eq_INT_MIN sint_max_radius word_sle_eq)

lemma regular_secondary_glow:
  "0 \<le>s secondary_glow_radius P \<Longrightarrow> max_radius_for_loop P \<noteq> INT_MIN"
  by (simp add: eq_INT_MIN sint_max_radius word_sle_eq)

lemma normalize_zero: "normalize_accum (float3 0 0 0) 0 = Some (float3 0 0 0)"
  by (simp add: normalize_accum_def)

lemma scan_step_bloom_threshold:
  "bloom_intensity P = 0 \<Longrightarrow>
   scan_step img smp (P\<lparr>bloom_threshold := t\<rparr>) = scan_step img smp P"
  by (intro ext) (simp add: scan_step_def Let_def)

lemma scan_step_halation_threshold:
  "halation_intensity P = 0 \<Longrightarrow>
   scan_step img smp (P\<lparr>halation_threshold := t\<rparr>) = scan_step img smp P"
  by (intro ext) (simp add: scan_step_def Let_def)

lemma scan_step_secondary_glow_threshold:
  "secondary_glow_intensity P = 0 \<Longrightarrow>
   scan_step img smp (P\<lparr>secondary_glow_threshold := t\<rparr>) = scan_step img smp P"
  by (intro ext) (simp add: scan_step_def Let_def)

lemma film_look_cong:
  assumes "shake_offset P' = shake_offset P" and "graded_color P' = graded_color P"
    and "final_color P' = final_color P"
    and "scan img smp P' (uv + shake_offset P) px = scan img smp P (uv + shake_offset P) px"
  shows "film_look smp px img P' uv = film_look smp px img P uv"
  by (simp add: film_look_def assms)

lemma film_look_cong_states:
  assumes "shake_offset P' = shake_offset P" and "graded_color P' = graded_color P"
    and "final_color P' = final_color P"
    and "scan img smp P (uv + shake_offset P) px = Some s"
    and "scan img smp P' (uv + shake_offset P) px = Some s'"
    and "bloom_sample_count s' = bloom_sample_count s" and "bloom_accum s' = bloom_accum s"
    and "halation_sample_count s' = halation_sample_count s"
    and "halation_accum s' = halation_accum s"
    and "secondary_glow_sample_count s' = secondary_glow_sample_count s"
    and "secondary_glow_accum s' = secondary_glow_accum s"
  shows "film_look smp px img P' uv = film_look smp px img P uv"
  by (simp add: film_look_def assms)

lemma scan_returns:
  "max_radius_for_loop P \<noteq> INT_MAX \<Longrightarrow> \<exists>s. scan img smp P suv px = Some s"
  using scan_None [of img smp P suv px] by auto

lemma bloom_threshold_invariant:
  assumes "bloom_intensity P = 0"
  shows "film_look smp px img (P\<lparr>bloom_threshold := t\<rparr>) uv = film_look smp px img P uv"
proof (rule film_look_cong)
  show "shake_offset (P\<lparr>bloom_threshold := t\<rparr>) = shake_offset P"
    by (simp add: shake_offset_def)
  show "graded_color (P\<lparr>bloom_threshold := t\<rparr>) = graded_color P"
    by (intro ext) (simp add: graded_color_def Let_def)
  show "final_color (P\<lparr>bloom_threshold := t\<rparr>) = final_color P"
    by (intro ext)
      (simp add: final_color_def add_grain_def screen_secondary_glow_def screen_halation_def
        add_bloom_def Let_def)
  show "scan img smp (P\<lparr>bloom_threshold := t\<rparr>) (uv + shake_offset P) px
      = scan img smp P (uv + shake_offset P) px"
    by (simp add: scan_def max_radius_for_loop_def scan_step_bloom_threshold [OF assms])
qed

lemma halation_threshold_invariant:
  assumes "halation_intensity P = 0"
  shows "film_look smp px img (P\<lparr>halation_threshold := t\<rparr>) uv = film_look smp px img P uv"
proof (rule film_look_cong)
  show "shake_offset (P\<lparr>halation_threshold := t\<rparr>) = shake_offset P"
    by (simp add: shake_offset_def)
  show "graded_color (P\<lparr>halation_threshold := t\<rparr>) = graded_color P"
    by (intro ext) (simp add: graded_color_def Let_def)
  show "final_color (P\<lparr>halation_threshold := t\<rparr>) = final_color P"
    by (intro ext)
      (simp add: final_color_def add_grain_def screen_secondary_glow_def screen_halation_def
        add_bloom_def Let_def)
  show "scan img smp (P\<lparr>halation_threshold := t\<rparr>) (uv + shake_offset P) px
      = scan img smp P (uv + shake_offset P) px"
    by (simp add: scan_def max_radius_for_loop_def scan_step_halation_threshold [OF assms])
qed

lemma secondary_glow_threshold_invariant:
  assumes "secondary_glow_intensity P = 0"
  shows "film_look smp px img (P\<lparr>secondary_glow_threshold := t\<rparr>) uv
       = film_look smp px img P uv"
proof (rule film_look_cong)
  show "shake_offset (P\<lparr>secondary_glow_threshold := t\<rparr>) = shake_offset P"
    by (simp add: shake_offset_def)
  show "graded_color (P\<lparr>secondary_glow_threshold := t\<rparr>) = graded_color P"
    by (intro ext) (simp add: graded_color_def Let_def)
  show "final_color (P\<lparr>secondary_glow_threshold := t\<rparr>) = final_color P"
    by (intro ext)
      (simp add: final_color_def add_grain_def screen_secondary_glow_def screen_halation_def
        add_bloom_def Let_def)
  show "scan img smp (P\<lparr>secondary_glow_threshold := t\<rparr>) (uv + shake_offset P) px
      = scan img smp P (uv + shake_offset P) px"
    by (simp add: scan_def max_radius_for_loop_def
        scan_step_secondary_glow_threshold [OF assms])
qed

lemma bloom_off_invariant:
  assumes off: "bloom_intensity P = 0"
    and R: "max_radius_for_loop P \<notin> {INT_MIN, INT_MAX}"
    and R': "max_radius_for_loop (P\<lparr>bloom_radius := r\<rparr>) \<notin> {INT_MIN, INT_MAX}"
  shows "film_look smp px img (P\<lparr>bloom_threshold := t, bloom_radius := r\<rparr>) uv
       = film_look smp px img P uv"
proof -
  let ?P' = "P\<lparr>bloom_threshold := t, bloom_radius := r\<rparr>"
  have m': "max_radius_for_loop ?P' = max_radius_for_loop (P\<lparr>bloom_radius := r\<rparr>)"
    by (simp add: max_radius_for_loop_def)
  obtain s where s: "scan img smp P (uv + shake_offset P) px = Some s"
    using scan_returns [of P img smp "uv + shake_offset P" px] R by auto
  obtain s' where s': "scan img smp ?P' (uv + shake_offset P) px = Some s'"
    using scan_returns [of ?P' img smp "uv + shake_offset P" px] R' m' by auto
  have reg: "max_radius_for_loop P \<noteq> INT_MIN" "max_radius_for_loop ?P' \<noteq> INT_MIN"
    using R R' m' by simp_all
  show ?thesis
  proof (rule film_look_cong_states [OF _ _ _ s s'])
    show "shake_offset ?P' = shake_offset P"
      by (simp add: shake_offset_def)
    show "graded_color ?P' = graded_color P"
      by (intro ext) (simp add: graded_color_def Let_def)
    show "final_color ?P' = final_color P"
      by (intro ext)
        (simp add: final_color_def add_grain_def screen_secondary_glow_def screen_halation_def
          add_bloom_def Let_def)
    show "bloom_sample_count s' = bloom_sample_count s" "bloom_accum s' = bloom_accum s"
      using bloom_off [OF s] bloom_off [OF s'] off by simp_all
    show "halation_sample_count s' = halation_sample_count s"
      by (simp add: halation_sample_count_scan [OF s reg(1)]
          halation_sample_count_scan [OF s' reg(2)])
    show "halation_accum s' = halation_accum s"
      by (simp add: halation_accum_scan [OF s reg(1)] halation_accum_scan [OF s' reg(2)])
    show "secondary_glow_sample_count s' = secondary_glow_sample_count s"
      by (simp add: secondary_glow_sample_count_scan [OF s reg(1)]
          secondary_glow_sample_count_scan [OF s' reg(2)])
    show "secondary_glow_accum s' = secondary_glow_accum s"
      by (simp add: secondary_glow_accum_scan [OF s reg(1)]
          secondary_glow_accum_scan [OF s' reg(2)])
  qed
qed

lemma halation_off_invariant:
  assumes off: "halation_intensity P = 0"
    and R: "max_radius_for_loop P \<notin> {INT_MIN, INT_MAX}"
    and R': "max_radius_for_loop (P\<lparr>halation_radius := r\<rparr>) \<notin> {INT_MIN, INT_MAX}"
  shows "film_look smp px img (P\<lparr>halation_threshold := t, halation_radius := r\<rparr>) uv
       = film_look smp px img P uv"
proof -
  let ?P' = "P\<lparr>halation_threshold := t, halation_radius := r\<rparr>"
  have m': "max_radius_for_loop ?P' = max_radius_for_loop (P\<lparr>halation_radius := r\<rparr>)"
    by (simp add: max_radius_for_loop_def)
  obtain s where s: "scan img smp P (uv + shake_offset P) px = Some s"
    using scan_returns [of P img smp "uv + shake_offset P" px] R by auto
  obtain s' where s': "scan img smp ?P' (uv + shake_offset P) px = Some s'"
    using scan_returns [of ?P' img smp "uv + shake_offset P" px] R' m' by auto
  have reg: "max_radius_for_loop P \<noteq> INT_MIN" "max_radius_for_loop ?P' \<noteq> INT_MIN"
    using R R' m' by simp_all
  show ?thesis
  proof (rule film_look_cong_states [OF _ _ _ s s'])
    show "shake_offset ?P' = shake_offset P"
      by (simp add: shake_offset_def)
    show "graded_color ?P' = graded_color P"
      by (intro ext) (simp add: graded_color_def Let_def)
    show "final_color ?P' = final_color P"
      by (intro ext)
        (simp add: final_color_def add_grain_def screen_secondary_glow_def screen_halation_def
          add_bloom_def Let_def)
    show "bloom_sample_count s' = bloom_sample_count s"
      by (simp add: bloom_sample_count_scan [OF s reg(1)]
          bloom_sample_count_scan [OF s' reg(2)])
    show "bloom_accum s' = bloom_accum s"
      by (simp add: bloom_accum_scan [OF s reg(1)] bloom_accum_scan [OF s' reg(2)])
    show "halation_sample_count s' = halation_sample_count s" "halation_accum s' = halation_accum s"
      using halation_off [OF s] halation_off [OF s'] off by simp_all
    show "secondary_glow_sample_count s' = secondary_glow_sample_count s"
      by (simp add: secondary_glow_sample_count_scan [OF s reg(1)]
          secondary_glow_sample_count_scan [OF s' reg(2)])
    show "secondary_glow_accum s' = secondary_glow_accum s"
      by (simp add: secondary_glow_accum_scan [OF s reg(1)] secondary_glow_accum_scan [OF s' reg(2)])
  qed
qed

lemma secondary_glow_off_invariant:
  assumes off: "secondary_glow_intensity P = 0"
    and R: "max_radius_for_loop P \<notin> {INT_MIN, INT_MAX}"
    and R': "max_radius_for_loop (P\<lparr>secondary_glow_radius := r\<rparr>) \<notin> {INT_MIN, INT_MAX}"
  shows "film_look smp px img (P\<lparr>secondary_glow_threshold := t, secondary_glow_radius := r\<rparr>) uv
       = film_look smp px img P uv"
proof -
  let ?P' = "P\<lparr>secondary_glow_threshold := t, secondary_glow_radius := r\<rparr>"
  have m': "max_radius_for_loop ?P' = max_radius_for_loop (P\<lparr>secondary_glow_radius := r\<rparr>)"
    by (simp add: max_radius_for_loop_def)
  obtain s where s: "scan img smp P (uv + shake_offset P) px = Some s"
    using scan_returns [of P img smp "uv + shake_offset P" px] R by auto
  obtain s' where s': "scan img smp ?P' (uv + shake_offset P) px = Some s'"
    using scan_returns [of ?P' img smp "uv + shake_offset P" px] R' m' by auto
  have reg: "max_radius_for_loop P \<noteq> INT_MIN" "max_radius_for_loop ?P' \<noteq> INT_MIN"
    using R R' m' by simp_all
  show ?thesis
  proof (rule film_look_cong_states [OF _ _ _ s s'])
    show "shake_offset ?P' = shake_offset P"
      by (simp add: shake_offset_def)
    show "graded_color ?P' = graded_color P"
      by (intro ext) (simp add: graded_color_def Let_def)
    show "final_color ?P' = final_color P"
      by (intro ext)
        (simp add: final_color_def add_grain_def screen_secondary_glow_def screen_halation_def
          add_bloom_def Let_def)
    show "bloom_sample_count s' = bloom_sample_count s"
      by (simp add: bloom_sample_count_scan [OF s reg(1)]
          bloom_sample_count_scan [OF s' reg(2)])
    show "bloom_accum s' = bloom_accum s"
      by (simp add: bloom_accum_scan [OF s reg(1)] bloom_accum_scan [OF s' reg(2)])
    show "halation_sample_count s' = halation_sample_count s"
      by (simp add: halation_sample_count_scan [OF s reg(1)]
          halation_sample_count_scan [OF s' reg(2)])
    show "halation_accum s' = halation_accum s"
      by (simp add: halation_accum_scan [OF s reg(1)] halation_accum_scan [OF s' reg(2)])
    show "secondary_glow_sample_count s' = secondary_glow_sample_count s" "secondary_glow_accum s' = secondary_glow_accum s"
      using secondary_glow_off [OF s] secondary_glow_off [OF s'] off by simp_all
  qed
qed

lemma sint_zero_iff: "(sint (r::int32) = 0) = (r = 0)"
  by (metis sint_0 word_eq_iff_signed)

lemma empty_square:
  fixes f :: "int \<Rightarrow> int \<Rightarrow> float3"
  shows "r < 0 \<Longrightarrow> (\<Sum>x\<in>{- r..r}. \<Sum>y\<in>{- r..r}. f x y) = 0"
  by simp

lemma negative_or_zero: "r \<le>s 0 \<Longrightarrow> r \<noteq> 0 \<Longrightarrow> sint (r::int32) < 0"
  using sint_zero_iff [of r] by (simp add: word_sle_eq)

lemma bloom_accum_centre:
  assumes "scan img smp P suv px = Some s" and "max_radius_for_loop P \<noteq> INT_MIN"
    and "bloom_intensity P \<le> 0 \<or> bloom_radius P \<le>s 0"
  shows "bloom_accum s =
     (if 0 < bloom_intensity P \<and> bloom_radius P = 0
      then weighted (bloom_threshold P) (float3 1 1 1) (rgb (Sample img smp suv)) else 0)"
  using assms(3) negative_or_zero [of "bloom_radius P"]
  by (auto simp add: bloom_accum_scan [OF assms(1,2)] centre_sample empty_square)

lemma halation_accum_centre:
  assumes "scan img smp P suv px = Some s" and "max_radius_for_loop P \<noteq> INT_MIN"
    and "halation_intensity P \<le> 0 \<or> halation_radius P \<le>s 0"
  shows "halation_accum s =
     (if 0 < halation_intensity P \<and> halation_radius P = 0
      then weighted (halation_threshold P) (float3 1 0.2 0.1) (rgb (Sample img smp suv)) else 0)"
  using assms(3) negative_or_zero [of "halation_radius P"]
  by (auto simp add: halation_accum_scan [OF assms(1,2)] centre_sample empty_square)

lemma secondary_glow_accum_centre:
  assumes "scan img smp P suv px = Some s" and "max_radius_for_loop P \<noteq> INT_MIN"
    and "secondary_glow_intensity P \<le> 0 \<or> secondary_glow_radius P \<le>s 0"
  shows "secondary_glow_accum s =
     (if 0 < secondary_glow_intensity P \<and> secondary_glow_radius P = 0
      then weighted (secondary_glow_threshold P) (float3 0.6 0.8 1) (rgb (Sample img smp suv))
      else 0)"
  using assms(3) negative_or_zero [of "secondary_glow_radius P"]
  by (auto simp add: secondary_glow_accum_scan [OF assms(1,2)] centre_sample empty_square)

subsection \<open>The concrete inputs\<close>

lemma sin_sum_pos: "0 < sin (1/2 :: real) + sin (6/5)"
proof -
  have "0 < sin (1/2 :: real)" by (rule sin_gt_zero_02) simp_all
  moreover have "0 < sin (6/5 :: real)" by (rule sin_gt_zero_02) simp_all
  ultimately show ?thesis by simp
qed

lemma fading_right:
  "1/2 < xcomp p \<Longrightarrow> alpha (Sample fading textureSampler p) < 1/2"
  by (auto simp add: Sample_def textureSampler_def fading_def clamp1_def min_def max_def)

lemma fading_centre: "alpha (Sample fading textureSampler (float2 (1/2) (1/2))) = 1/2"
  by (simp add: Sample_def textureSampler_def fading_def clamp1_def outside_def)

lemma grey_centre:
  "sample_color_at grey_opaque textureSampler (float2 (1/2) (1/2)) px 0 0 = float3 (1/2) (1/2) (1/2)"
  by (simp add: sample_color_at_def Sample_def textureSampler_def grey_opaque_def
      plus_float2_def times_float2_def outside_def)

lemma weighted_grey: "weighted 0 (float3 1 1 1) (float3 (1/2) (1/2) (1/2)) = float3 (1/4) (1/4) (1/4)"
  by (simp add: weighted_def luma_def dot_def smoothstep_def clamp1_def Let_def
      times_float3_def splat3_def)

lemma weighted_black: "weighted 0 (float3 1 1 1) (float3 0 0 0) = float3 0 0 0"
  by (simp add: weighted_def times_float3_def splat3_def)

lemma grey_border_samples:
  assumes "x \<in> {- 1, 0, 1}" "y \<in> {- 1, 0, 1}"
  shows "sample_color_at grey_opaque textureSampler (float2 (1/2) (1/2)) (float2 1 1) x y =
     (if x = 0 \<and> y = 0 then float3 (1/2) (1/2) (1/2) else float3 0 0 0)"
  using assms
  by (auto simp add: sample_color_at_def Sample_def textureSampler_def grey_opaque_def
      plus_float2_def times_float2_def outside_def)

lemma grey_clamp_samples:
  "sample_color_at grey_opaque textureSampler_film_look_effect suv px x y =
     float3 (1/2) (1/2) (1/2)"
  by (simp add: sample_color_at_def Sample_def textureSampler_film_look_effect_def
      grey_opaque_def)

lemma max_radius_defaults: "max_radius_for_loop defaults = 4"
  by (simp add: max_radius_for_loop_def defaults_def max32_def word_sless_alt)

lemma four_not_INT_MAX: "(4::int32) \<noteq> INT_MAX" "(4::int32) \<noteq> INT_MIN"
  by (simp_all add: eq_INT_MAX eq_INT_MIN)

lemma max_radius_noop: "max_radius_for_loop noop = 4"
  by (simp add: max_radius_for_loop_def noop_def defaults_def max32_def word_sless_alt)

lemma max_radius_centre_bloom: "max_radius_for_loop centre_bloom = 4"
  by (simp add: max_radius_for_loop_def centre_bloom_def noop_def defaults_def max32_def
      word_sless_alt)

lemma max_radius_one_pixel_bloom: "max_radius_for_loop one_pixel_bloom = 4"
  by (simp add: max_radius_for_loop_def one_pixel_bloom_def noop_def defaults_def max32_def
      word_sless_alt)

lemma max_radius_negative:
  "max_radius_for_loop negative_bloom_radius = 4"
  "max_radius_for_loop negative_halation_radius = 3"
  "max_radius_for_loop negative_secondary_glow_radius = 4"
  by (simp_all add: max_radius_for_loop_def negative_bloom_radius_def
      negative_halation_radius_def negative_secondary_glow_radius_def defaults_def max32_def
      word_sless_alt)

lemma three_not_INT_MAX: "(3::int32) \<noteq> INT_MAX" "(3::int32) \<noteq> INT_MIN"
  by (simp_all add: eq_INT_MAX eq_INT_MIN)

lemma one_pixel_bloom_fields:
  "bloom_intensity one_pixel_bloom = 1" "bloom_radius one_pixel_bloom = 1"
  "bloom_threshold one_pixel_bloom = 0" "halation_intensity one_pixel_bloom = 0"
  "secondary_glow_intensity one_pixel_bloom = 0" "grain_intensity one_pixel_bloom = 0"
  "shake_intensity one_pixel_bloom = 0" "uv_size one_pixel_bloom = float2 1 1"
  "contrast one_pixel_bloom = 1" "teal_amount one_pixel_bloom = 0"
  "orange_amount one_pixel_bloom = 0"
  by (simp_all add: one_pixel_bloom_def noop_def)

lemma centre_bloom_fields:
  "bloom_intensity centre_bloom = 1" "bloom_radius centre_bloom = 0"
  "bloom_threshold centre_bloom = 0" "halation_intensity centre_bloom = 0"
  "secondary_glow_intensity centre_bloom = 0" "grain_intensity centre_bloom = 0"
  "shake_intensity centre_bloom = 0" "uv_size centre_bloom = float2 1920 1080"
  "contrast centre_bloom = 1" "teal_amount centre_bloom = 0"
  "orange_amount centre_bloom = 0"
  by (simp_all add: centre_bloom_def noop_def defaults_def)

lemma defaults_inside:
  "\<forall>x y. \<bar>x\<bar> \<le> sint (max_radius_for_loop defaults)
         \<and> \<bar>y\<bar> \<le> sint (max_radius_for_loop defaults) \<longrightarrow>
     \<not> outside (xcomp (float2 0.5 0.5 + float2 (real_of_int x) (real_of_int y)
                                          * (splat2 1 / uv_size defaults)))
     \<and> \<not> outside (ycomp (float2 0.5 0.5 + float2 (real_of_int x) (real_of_int y)
                                          * (splat2 1 / uv_size defaults)))"
proof (intro allI impI)
  fix x y :: int
  assume "\<bar>x\<bar> \<le> sint (max_radius_for_loop defaults)
      \<and> \<bar>y\<bar> \<le> sint (max_radius_for_loop defaults)"
  then have "\<bar>x\<bar> \<le> 4" "\<bar>y\<bar> \<le> 4"
    by (simp_all add: max_radius_defaults)
  then have "\<bar>real_of_int x\<bar> \<le> 4" "\<bar>real_of_int y\<bar> \<le> 4"
    by linarith+
  then show "\<not> outside (xcomp (float2 0.5 0.5 + float2 (real_of_int x) (real_of_int y)
                                          * (splat2 1 / uv_size defaults)))
     \<and> \<not> outside (ycomp (float2 0.5 0.5 + float2 (real_of_int x) (real_of_int y)
                                          * (splat2 1 / uv_size defaults)))"
    by (simp add: outside_def defaults_def splat2_def divide_float2_def times_float2_def
        plus_float2_def) linarith
qed

lemma centre_bloom_pixel:
  "mainImage grey_opaque centre_bloom (float2 (1/2) (1/2))
     = Some (float4 (float3 (3/4) (3/4) (3/4)) 1)"
proof -
  note p = centre_bloom_fields
  have sm: "Sample grey_opaque textureSampler (float2 (1/2) (1/2))
      = float4 (float3 (1/2) (1/2) (1/2)) 1"
    by (simp add: Sample_def textureSampler_def grey_opaque_def outside_def)
  have g: "graded_color centre_bloom (float3 (1/2) (1/2) (1/2)) = float3 (1/2) (1/2) (1/2)"
    by (intro graded_color_identity) (simp_all add: p)
  have off: "shake_offset centre_bloom = float2 0 0"
    by (simp add: shake_offset_off p)
  have reg: "max_radius_for_loop centre_bloom \<noteq> INT_MIN"
    using max_radius_centre_bloom four_not_INT_MAX by simp
  obtain s where s: "scan grey_opaque textureSampler centre_bloom
      (float2 (1/2) (1/2) + shake_offset centre_bloom) (splat2 1 / uv_size centre_bloom) = Some s"
    using scan_returns [of centre_bloom grey_opaque textureSampler
        "float2 (1/2) (1/2) + shake_offset centre_bloom" "splat2 1 / uv_size centre_bloom"]
      max_radius_centre_bloom four_not_INT_MAX by auto
  note c = bloom_sample_count_scan [OF s reg] bloom_accum_scan [OF s reg]
    halation_sample_count_scan [OF s reg] halation_accum_scan [OF s reg]
    secondary_glow_sample_count_scan [OF s reg] secondary_glow_accum_scan [OF s reg]
  show ?thesis
    unfolding mainImage_def film_look_Some [OF s] c off add_zero2 sm
    by (simp add: g p grey_centre weighted_grey final_color_def add_grain_def
        screen_secondary_glow_def screen_halation_def add_bloom_def Let_def splat3_def
        plus_float3_def times_float3_def divide_float3_def clamp_def clamp1_def
        zero_float3_def)
qed

lemma centre_bloom_off_pixel:
  "mainImage grey_opaque (centre_bloom\<lparr>bloom_intensity := 0\<rparr>) (float2 (1/2) (1/2))
     = Some (float4 (float3 (1/2) (1/2) (1/2)) 1)"
proof -
  note p = centre_bloom_fields
  have sm: "Sample grey_opaque textureSampler (float2 (1/2) (1/2))
      = float4 (float3 (1/2) (1/2) (1/2)) 1"
    by (simp add: Sample_def textureSampler_def grey_opaque_def outside_def)
  have g: "graded_color (centre_bloom\<lparr>bloom_intensity := 0\<rparr>) (float3 (1/2) (1/2) (1/2))
      = float3 (1/2) (1/2) (1/2)"
    by (intro graded_color_identity) (simp_all add: p)
  have off: "shake_offset (centre_bloom\<lparr>bloom_intensity := 0\<rparr>) = float2 0 0"
    by (simp add: shake_offset_off p)
  have m: "max_radius_for_loop (centre_bloom\<lparr>bloom_intensity := 0\<rparr>) = 4"
    using max_radius_centre_bloom by (simp add: max_radius_for_loop_def)
  have reg: "max_radius_for_loop (centre_bloom\<lparr>bloom_intensity := 0\<rparr>) \<noteq> INT_MIN"
    using m four_not_INT_MAX by simp
  obtain s where s: "scan grey_opaque textureSampler (centre_bloom\<lparr>bloom_intensity := 0\<rparr>)
      (float2 (1/2) (1/2) + shake_offset (centre_bloom\<lparr>bloom_intensity := 0\<rparr>))
      (splat2 1 / uv_size (centre_bloom\<lparr>bloom_intensity := 0\<rparr>)) = Some s"
    using scan_returns [of "centre_bloom\<lparr>bloom_intensity := 0\<rparr>" grey_opaque textureSampler
        "float2 (1/2) (1/2) + shake_offset (centre_bloom\<lparr>bloom_intensity := 0\<rparr>)"
        "splat2 1 / uv_size (centre_bloom\<lparr>bloom_intensity := 0\<rparr>)"]
      m four_not_INT_MAX by auto
  note c = bloom_sample_count_scan [OF s reg] bloom_accum_scan [OF s reg]
    halation_sample_count_scan [OF s reg] halation_accum_scan [OF s reg]
    secondary_glow_sample_count_scan [OF s reg] secondary_glow_accum_scan [OF s reg]
  show ?thesis
    unfolding mainImage_def film_look_Some [OF s] c off add_zero2 sm
    by (simp add: g p final_color_def add_grain_def
        screen_secondary_glow_def screen_halation_def add_bloom_def Let_def splat3_def
        plus_float3_def times_float3_def divide_float3_def clamp_def clamp1_def
        zero_float3_def)
qed

lemma wrapped_radii_fields:
  "bloom_intensity wrapped_radii = 1" "bloom_radius wrapped_radii = INT_MIN"
  "bloom_threshold wrapped_radii = 0" "halation_intensity wrapped_radii = 0"
  "secondary_glow_intensity wrapped_radii = 0" "grain_intensity wrapped_radii = 0"
  "shake_intensity wrapped_radii = 0" "uv_size wrapped_radii = float2 1920 1080"
  "contrast wrapped_radii = 1" "teal_amount wrapped_radii = 0"
  "orange_amount wrapped_radii = 0"
  by (simp_all add: wrapped_radii_def centre_bloom_def noop_def defaults_def)

lemma max_radius_wrapped_radii: "max_radius_for_loop wrapped_radii = INT_MIN"
  by (simp add: max_radius_for_loop_def wrapped_radii_def max32_def)

lemma INT_MIN_not_INT_MAX: "INT_MIN \<noteq> INT_MAX"
  by (simp add: eq_INT_MAX sint_INT_MIN)

lemma grey_far_border_sample:
  "sample_color_at grey_opaque textureSampler (float2 (1/2) (1/2)) (splat2 1 / float2 1920 1080)
     (- 2147483648) (- 2147483648) = float3 0 0 0"
  by (simp add: sample_color_at_def Sample_def textureSampler_def grey_opaque_def
      plus_float2_def times_float2_def divide_float2_def splat2_def outside_def)

lemma wrapped_radii_pixels:
  "mainImage grey_opaque wrapped_radii (float2 (1/2) (1/2))
     = Some (float4 (float3 (1/2) (1/2) (1/2)) 1)"
  "pixel_shader grey_opaque wrapped_radii (float2 (1/2) (1/2))
     = Some (float4 (float3 (3/4) (3/4) (3/4)) 1)"
proof -
  note p = wrapped_radii_fields
  note least = max_radius_wrapped_radii
  have off: "shake_offset wrapped_radii = float2 0 0"
    by (simp add: shake_offset_off p)
  have s1: "Sample grey_opaque textureSampler (float2 (1/2) (1/2))
      = float4 (float3 (1/2) (1/2) (1/2)) 1"
    by (simp add: Sample_def textureSampler_def grey_opaque_def outside_def)
  have s2: "Sample grey_opaque textureSampler_film_look_effect (float2 (1/2) (1/2))
      = float4 (float3 (1/2) (1/2) (1/2)) 1"
    by (simp add: Sample_def textureSampler_film_look_effect_def grey_opaque_def)
  have g: "graded_color wrapped_radii (float3 (1/2) (1/2) (1/2)) = float3 (1/2) (1/2) (1/2)"
    by (intro graded_color_identity) (simp_all add: p)
  have m: "max_radius_for_loop wrapped_radii \<noteq> INT_MAX"
    using least INT_MIN_not_INT_MAX by simp
  obtain t1 where t1: "scan grey_opaque textureSampler wrapped_radii
      (float2 (1/2) (1/2) + shake_offset wrapped_radii) (splat2 1 / uv_size wrapped_radii)
      = Some t1"
    using scan_returns [OF m] by blast
  obtain t2 where t2: "scan grey_opaque textureSampler_film_look_effect wrapped_radii
      (float2 (1/2) (1/2) + shake_offset wrapped_radii) (uv_size wrapped_radii) = Some t2"
    using scan_returns [OF m] by blast
  have i: "halation_intensity wrapped_radii \<le> 0" "secondary_glow_intensity wrapped_radii \<le> 0"
    by (simp_all add: p)
  have acc1: "bloom_accum t1 = float3 0 0 0"
    unfolding bloom_accum_INT_MIN [OF t1 least] off add_zero2 p
    by (simp add: grey_far_border_sample weighted_black)
  have acc2: "bloom_accum t2 = float3 (1/4) (1/4) (1/4)"
    unfolding bloom_accum_INT_MIN [OF t2 least] off add_zero2 p
    by (simp add: grey_clamp_samples weighted_grey)
  note c1 = bloom_sample_count_INT_MIN [OF t1 least] halation_off [OF t1 i(1)]
    secondary_glow_off [OF t1 i(2)]
  note c2 = bloom_sample_count_INT_MIN [OF t2 least] halation_off [OF t2 i(1)]
    secondary_glow_off [OF t2 i(2)]
  show "mainImage grey_opaque wrapped_radii (float2 (1/2) (1/2))
     = Some (float4 (float3 (1/2) (1/2) (1/2)) 1)"
    unfolding mainImage_def film_look_Some [OF t1] acc1 off add_zero2 s1
    by (simp add: c1 g p final_color_def add_grain_def screen_secondary_glow_def
        screen_halation_def add_bloom_def Let_def splat3_def plus_float3_def times_float3_def
        divide_float3_def clamp_def clamp1_def zero_float3_def BlendScreen_def
        minus_float3_def)
  show "pixel_shader grey_opaque wrapped_radii (float2 (1/2) (1/2))
     = Some (float4 (float3 (3/4) (3/4) (3/4)) 1)"
    unfolding pixel_shader_def film_look_Some [OF t2] acc2 off add_zero2 s2
    by (simp add: c2 g p final_color_def add_grain_def screen_secondary_glow_def
        screen_halation_def add_bloom_def Let_def splat3_def plus_float3_def times_float3_def
        divide_float3_def clamp_def clamp1_def zero_float3_def BlendScreen_def
        minus_float3_def)
qed

lemma endless_radius_no_pixel:
  "mainImage img endless_radius uv = None" "pixel_shader img endless_radius uv = None"
proof -
  have "max_radius_for_loop endless_radius = INT_MAX"
    by (simp add: eq_INT_MAX sint_max_radius sint_INT_MAX endless_radius_def defaults_def)
  then show "mainImage img endless_radius uv = None" "pixel_shader img endless_radius uv = None"
    by (simp_all add: mainImage_def pixel_shader_def film_look_None)
qed

section \<open>Claims\<close>

subsection \<open>C1: the alpha channel of the output\<close>

text \<open>
  C1, as amended. The alpha channel of the output pixel is the alpha channel of the input
  sampled at the shaken coordinate \<open>uv + shake_offset\<close>, whatever the colour stages compute.
  It is the alpha at the base coordinate \<open>uv\<close> when \<open>shake_intensity \<le> 0\<close>. The shader
  returns a pixel unless the largest of the three radii is 2147483647, where the scan never
  ends.
\<close>

theorem alpha_from_shaken_sample:
  "map_option alpha (mainImage img P uv) =
     (if max_radius_for_loop P = INT_MAX then None
      else Some (alpha (Sample img textureSampler (uv + shake_offset P))))
   \<and> (shake_intensity P \<le> 0 \<longrightarrow>
        map_option alpha (mainImage img P uv) =
          (if max_radius_for_loop P = INT_MAX then None
           else Some (alpha (Sample img textureSampler uv))))"
  by (simp add: mainImage_def film_look_alpha shake_offset_off add_zero2)

text \<open>
  C1, as amended, at the centre of the texture whose alpha falls from left to right, for the
  default settings with the shake switched off.
\<close>

theorem alpha_from_shaken_sample_witness:
  "shake_intensity (defaults\<lparr>shake_intensity := 0\<rparr>) \<le> 0
   \<and> map_option alpha
        (mainImage fading (defaults\<lparr>shake_intensity := 0\<rparr>) (float2 (1/2) (1/2)))
       = Some (1/2)"
proof -
  have h: "shake_intensity (defaults\<lparr>shake_intensity := 0\<rparr>) \<le> 0" by simp
  have m: "max_radius_for_loop (defaults\<lparr>shake_intensity := 0\<rparr>) \<noteq> INT_MAX"
    using max_radius_defaults four_not_INT_MAX by (simp add: max_radius_for_loop_def)
  from alpha_from_shaken_sample
    [of fading "defaults\<lparr>shake_intensity := 0\<rparr>" "float2 (1/2) (1/2)"] h m
  have "map_option alpha
      (mainImage fading (defaults\<lparr>shake_intensity := 0\<rparr>) (float2 (1/2) (1/2)))
    = Some (alpha (Sample fading textureSampler (float2 (1/2) (1/2))))"
    by simp
  then show ?thesis
    unfolding fading_centre using h by blast
qed

text \<open>
  C1 as stated fails when the camera shake is on. On the same texture, with the default
  settings and \<open>shake_intensity = 0.02\<close> at time 0, the pixel at the centre is read to the right
  of the centre: the output alpha is below 0.5, the alpha at the base coordinate is 0.5.
\<close>

theorem alpha_unshaken_counterexample:
  "map_option alpha
     (mainImage fading (defaults\<lparr>shake_intensity := 0.02\<rparr>) (float2 0.5 0.5))
     = Some (alpha (Sample fading textureSampler
               (float2 0.5 0.5 + shake_offset (defaults\<lparr>shake_intensity := 0.02\<rparr>))))
   \<and> alpha (Sample fading textureSampler
              (float2 0.5 0.5 + shake_offset (defaults\<lparr>shake_intensity := 0.02\<rparr>))) < 0.5
   \<and> alpha (Sample fading textureSampler (float2 0.5 0.5)) = 0.5"
proof -
  let ?P = "defaults\<lparr>shake_intensity := 0.02\<rparr>"
  have m: "max_radius_for_loop ?P \<noteq> INT_MAX"
    using max_radius_defaults four_not_INT_MAX by (simp add: max_radius_for_loop_def)
  have x: "xcomp (float2 0.5 0.5 + shake_offset ?P)
      = 1/2 + (sin (1/2) + sin (6/5)) * 0.5 * 0.02"
    by (simp add: shake_offset_def defaults_def Let_def plus_float2_def times_float2_def
        splat2_def)
  have "1/2 < xcomp (float2 0.5 0.5 + shake_offset ?P)"
    unfolding x using sin_sum_pos by simp
  then have "alpha (Sample fading textureSampler (float2 0.5 0.5 + shake_offset ?P)) < 1/2"
    by (rule fading_right)
  then show ?thesis
    using fading_centre m by (simp add: mainImage_def film_look_alpha)
qed

subsection \<open>C2: sampling outside the unit square\<close>

text \<open>
  C2, as amended. At a coordinate outside \<open>[0,1]\<close> on either axis, the sampler of the shader
  in \<open>film-look-filter.cpp\<close> and the sampler of \<open>data/passthrough.effect\<close> return transparent
  black \<open>(0, 0, 0, 0)\<close>. The sampler of \<open>data/film_look.effect\<close> has the address mode
  \<open>Clamp\<close> and returns the colour of the texture at the nearest coordinate of the unit square.
\<close>

theorem border_sampling:
  "outside (xcomp uv) \<or> outside (ycomp uv) \<longrightarrow>
     Sample img textureSampler uv = float4 (float3 0 0 0) 0
     \<and> passthrough_mainImage img uv = float4 (float3 0 0 0) 0
     \<and> Sample img textureSampler_film_look_effect uv =
         img (float2 (clamp1 (xcomp uv) 0 1) (clamp1 (ycomp uv) 0 1))"
  by (auto simp add: Sample_def textureSampler_def textureSampler_passthrough_def
      textureSampler_film_look_effect_def passthrough_mainImage_def)

text \<open>
  C2, as amended, at \<open>(-0.1, 0.5)\<close> on the white opaque texture.
\<close>

theorem border_sampling_witness:
  "outside (xcomp (float2 (- 0.1) 0.5))
   \<and> Sample white_opaque textureSampler (float2 (- 0.1) 0.5) = float4 (float3 0 0 0) 0
   \<and> passthrough_mainImage white_opaque (float2 (- 0.1) 0.5) = float4 (float3 0 0 0) 0
   \<and> Sample white_opaque textureSampler_film_look_effect (float2 (- 0.1) 0.5) =
         white_opaque (float2 0 0.5)"
proof -
  have h: "outside (xcomp (float2 (- 0.1) 0.5))" by (simp add: outside_def)
  then show ?thesis
    using border_sampling [of "float2 (- 0.1) 0.5" white_opaque]
    by (simp add: clamp1_def)
qed

text \<open>
  C2 as stated fails for \<open>data/film_look.effect\<close>: on a white opaque texture its sampler
  returns white at \<open>(-0.1, 0.5)\<close>, not transparent black.
\<close>

theorem border_sampling_counterexample:
  "outside (xcomp (float2 (- 0.1) 0.5))
   \<and> Sample white_opaque textureSampler_film_look_effect (float2 (- 0.1) 0.5)
       = float4 (float3 1 1 1) 1
   \<and> float4 (float3 1 1 1) 1 \<noteq> float4 (float3 0 0 0) 0"
  by (simp add: outside_def Sample_def textureSampler_film_look_effect_def white_opaque_def)

subsection \<open>C3: the two copies of the shader\<close>

text \<open>
  C3, as amended. The shader of \<open>film-look-filter.cpp\<close> and the one of
  \<open>data/film_look.effect\<close> return the same pixel whenever \<open>uv_size\<close> has no zero component
  (so that its reciprocal exists), the shaken coordinate lies in the unit square, the largest
  of the three radii is not -2147483648, and every effect with intensity above 0 has a radius
  of at most 0, so that no sample away from the shaken coordinate is accumulated. Both return
  a pixel unless the largest radius is 2147483647, where neither scan ends. Nothing is said
  about the other inputs, where the two differ by their samplers and by their pixel sizes.
  Among them are the settings with the three radii at -2147483648: the scan bound and \<open>abs\<close>
  wrap around, the loop body runs once, at an offset far outside the image, and the two
  shaders differ (lemma \<open>wrapped_radii_pixels\<close>).
\<close>

theorem variants_agree:
  assumes "xcomp (uv_size P) \<noteq> 0" and "ycomp (uv_size P) \<noteq> 0"
    and "\<not> outside (xcomp (uv + shake_offset P))"
    and "\<not> outside (ycomp (uv + shake_offset P))"
    and "max_radius_for_loop P \<noteq> INT_MIN"
    and "bloom_intensity P \<le> 0 \<or> bloom_radius P \<le>s 0"
    and "halation_intensity P \<le> 0 \<or> halation_radius P \<le>s 0"
    and "secondary_glow_intensity P \<le> 0 \<or> secondary_glow_radius P \<le>s 0"
  shows "mainImage img P uv = pixel_shader img P uv
     \<and> ((mainImage img P uv = None) = (max_radius_for_loop P = INT_MAX))"
proof (cases "max_radius_for_loop P = INT_MAX")
  case True
  then have "mainImage img P uv = None" "pixel_shader img P uv = None"
    by (simp_all add: mainImage_def pixel_shader_def film_look_None)
  then show ?thesis
    using True by simp
next
  case False
  obtain s1 where s1: "scan img textureSampler P (uv + shake_offset P) (splat2 1 / uv_size P)
      = Some s1"
    using scan_returns [OF False] by blast
  obtain s2 where s2: "scan img textureSampler_film_look_effect P (uv + shake_offset P)
      (uv_size P) = Some s2"
    using scan_returns [OF False] by blast
  note reg = assms(5)
  have s: "Sample img textureSampler (uv + shake_offset P) =
      Sample img textureSampler_film_look_effect (uv + shake_offset P)"
    using assms(3,4) by (simp add: sample_inside)
  have "mainImage img P uv = pixel_shader img P uv"
    unfolding mainImage_def pixel_shader_def film_look_Some [OF s1] film_look_Some [OF s2]
    by (simp only: s
        bloom_accum_centre [OF s1 reg assms(6)] bloom_accum_centre [OF s2 reg assms(6)]
        halation_accum_centre [OF s1 reg assms(7)] halation_accum_centre [OF s2 reg assms(7)]
        secondary_glow_accum_centre [OF s1 reg assms(8)]
        secondary_glow_accum_centre [OF s2 reg assms(8)]
        bloom_sample_count_scan [OF s1 reg] bloom_sample_count_scan [OF s2 reg]
        halation_sample_count_scan [OF s1 reg] halation_sample_count_scan [OF s2 reg]
        secondary_glow_sample_count_scan [OF s1 reg]
        secondary_glow_sample_count_scan [OF s2 reg])
  moreover have "mainImage img P uv \<noteq> None"
    using False by (simp add: mainImage_def film_look_None)
  ultimately show ?thesis
    using False by simp
qed

text \<open>
  C3, as amended, with bloom switched on at radius 0, at the centre of the grey image: the scan
  visits the offsets from -4 to 4 by the radii of the other effects, bloom accumulates the
  centre sample, and both shaders return \<open>0.75\<close>.
\<close>

theorem variants_agree_witness:
  "0 < bloom_intensity centre_bloom
   \<and> bloom_radius centre_bloom = 0
   \<and> max_radius_for_loop centre_bloom = 4
   \<and> mainImage grey_opaque centre_bloom (float2 0.5 0.5)
       = pixel_shader grey_opaque centre_bloom (float2 0.5 0.5)
   \<and> pixel_shader grey_opaque centre_bloom (float2 0.5 0.5)
       = Some (float4 (float3 0.75 0.75 0.75) 1)"
proof -
  note p = centre_bloom_fields
  have off: "shake_offset centre_bloom = float2 0 0"
    by (simp add: shake_offset_off p)
  have reg: "max_radius_for_loop centre_bloom \<noteq> INT_MIN"
    using max_radius_centre_bloom four_not_INT_MAX by simp
  have "mainImage grey_opaque centre_bloom (float2 (1/2) (1/2))
       = pixel_shader grey_opaque centre_bloom (float2 (1/2) (1/2))
     \<and> ((mainImage grey_opaque centre_bloom (float2 (1/2) (1/2)) = None)
         = (max_radius_for_loop centre_bloom = INT_MAX))"
    by (rule variants_agree)
      (simp_all add: off add_zero2 outside_def p reg word_sle_eq)
  then show ?thesis
    using centre_bloom_pixel max_radius_centre_bloom by (simp add: p)
qed

text \<open>
  C3 as stated fails. On a frame of one pixel, where \<open>uv_size\<close> and its reciprocal are both
  \<open>(1, 1)\<close>, with bloom alone switched on at radius 1 and threshold 0, on the grey image: eight
  of the nine samples lie outside the unit square. The \<open>Border\<close> sampler of
  \<open>film-look-filter.cpp\<close> reads them as black and the pixel is \<open>19/36\<close>; the \<open>Clamp\<close>
  sampler of \<open>data/film_look.effect\<close> reads them as grey and the pixel is \<open>0.75\<close>.
\<close>

theorem variants_differ_counterexample:
  "mainImage grey_opaque one_pixel_bloom (float2 0.5 0.5)
     = Some (float4 (float3 (19/36) (19/36) (19/36)) 1)
   \<and> pixel_shader grey_opaque one_pixel_bloom (float2 0.5 0.5)
     = Some (float4 (float3 0.75 0.75 0.75) 1)"
proof -
  note p = one_pixel_bloom_fields
  have off: "shake_offset one_pixel_bloom = float2 0 0"
    by (simp add: shake_offset_off p)
  have px: "splat2 1 / float2 1 1 = float2 1 1"
    by (simp add: splat2_def divide_float2_def)
  have s1: "Sample grey_opaque textureSampler (float2 (1/2) (1/2))
      = float4 (float3 (1/2) (1/2) (1/2)) 1"
    by (simp add: Sample_def textureSampler_def grey_opaque_def outside_def)
  have s2: "Sample grey_opaque textureSampler_film_look_effect (float2 (1/2) (1/2))
      = float4 (float3 (1/2) (1/2) (1/2)) 1"
    by (simp add: Sample_def textureSampler_film_look_effect_def grey_opaque_def)
  have g: "graded_color one_pixel_bloom (float3 (1/2) (1/2) (1/2)) = float3 (1/2) (1/2) (1/2)"
    by (intro graded_color_identity) (simp_all add: p)
  have reg: "max_radius_for_loop one_pixel_bloom \<noteq> INT_MIN"
    using max_radius_one_pixel_bloom four_not_INT_MAX by simp
  obtain t1 where t1: "scan grey_opaque textureSampler one_pixel_bloom
      (float2 (1/2) (1/2) + shake_offset one_pixel_bloom) (splat2 1 / uv_size one_pixel_bloom)
      = Some t1"
    using scan_returns [of one_pixel_bloom grey_opaque textureSampler
        "float2 (1/2) (1/2) + shake_offset one_pixel_bloom" "splat2 1 / uv_size one_pixel_bloom"]
      max_radius_one_pixel_bloom four_not_INT_MAX by auto
  obtain t2 where t2: "scan grey_opaque textureSampler_film_look_effect one_pixel_bloom
      (float2 (1/2) (1/2) + shake_offset one_pixel_bloom) (uv_size one_pixel_bloom) = Some t2"
    using scan_returns [of one_pixel_bloom grey_opaque textureSampler_film_look_effect
        "float2 (1/2) (1/2) + shake_offset one_pixel_bloom" "uv_size one_pixel_bloom"]
      max_radius_one_pixel_bloom four_not_INT_MAX by auto
  have acc1: "bloom_accum t1 = float3 (1/4) (1/4) (1/4)"
    unfolding bloom_accum_scan [OF t1 reg] off add_zero2 p px
    by (simp add: sum_minus_one_to_one grey_border_samples weighted_grey
        weighted_black plus_float3_def)
  have acc2: "bloom_accum t2 = float3 (9/4) (9/4) (9/4)"
    unfolding bloom_accum_scan [OF t2 reg] off add_zero2 p
    by (simp add: sum_minus_one_to_one grey_clamp_samples weighted_grey
        plus_float3_def)
  note c1 = bloom_sample_count_scan [OF t1 reg]
    halation_sample_count_scan [OF t1 reg] halation_accum_scan [OF t1 reg]
    secondary_glow_sample_count_scan [OF t1 reg] secondary_glow_accum_scan [OF t1 reg]
  note c2 = bloom_sample_count_scan [OF t2 reg]
    halation_sample_count_scan [OF t2 reg] halation_accum_scan [OF t2 reg]
    secondary_glow_sample_count_scan [OF t2 reg] secondary_glow_accum_scan [OF t2 reg]
  have 1: "mainImage grey_opaque one_pixel_bloom (float2 (1/2) (1/2))
     = Some (float4 (float3 (19/36) (19/36) (19/36)) 1)"
    unfolding mainImage_def film_look_Some [OF t1] acc1 c1 off add_zero2 s1
    by (simp add: g p final_color_def add_grain_def screen_secondary_glow_def
        screen_halation_def add_bloom_def Let_def splat3_def plus_float3_def times_float3_def
        divide_float3_def clamp_def clamp1_def zero_float3_def)
  have 2: "pixel_shader grey_opaque one_pixel_bloom (float2 (1/2) (1/2))
     = Some (float4 (float3 (3/4) (3/4) (3/4)) 1)"
    unfolding pixel_shader_def film_look_Some [OF t2] acc2 c2 off add_zero2 s2
    by (simp add: g p final_color_def add_grain_def screen_secondary_glow_def
        screen_halation_def add_bloom_def Let_def splat3_def plus_float3_def times_float3_def
        divide_float3_def clamp_def clamp1_def zero_float3_def)
  show ?thesis using 1 2 by simp
qed

subsection \<open>C4: an effect of intensity 0\<close>

text \<open>
  C4. The scan ends unless the largest of the three radii is 2147483647. For each of bloom,
  halation and secondary glow: when its intensity is 0, after the scan its sample counter is
  0, its accumulator is still the zero vector, normalising it divides by nothing (the checked
  division is not reached and the mean is the zero vector), its step of the compositor returns
  the colour it was given, whatever the mean, and the output of the shader does not change when
  the threshold of that effect changes. Nor does it change when the radius of that effect
  changes as well, as long as the largest radius is neither -2147483648 nor 2147483647 before
  and after the change: the radius of an effect that is off still takes part in the bound of
  the scan.
\<close>

theorem disabled_effect:
  "((scan img smp P suv px = None) = (max_radius_for_loop P = INT_MAX))
   \<and> (bloom_intensity P = 0 \<longrightarrow>
      (scan img smp P suv px = Some s \<longrightarrow>
         bloom_sample_count s = 0
         \<and> bloom_accum s = float3 0 0 0
         \<and> normalize_accum (bloom_accum s) (bloom_sample_count s) = Some (float3 0 0 0))
      \<and> add_bloom P final m = final
      \<and> mainImage img (P\<lparr>bloom_threshold := t\<rparr>) uv = mainImage img P uv
      \<and> (max_radius_for_loop P \<notin> {INT_MIN, INT_MAX}
           \<and> max_radius_for_loop (P\<lparr>bloom_radius := r\<rparr>) \<notin> {INT_MIN, INT_MAX} \<longrightarrow>
          mainImage img (P\<lparr>bloom_threshold := t, bloom_radius := r\<rparr>) uv = mainImage img P uv))
   \<and> (halation_intensity P = 0 \<longrightarrow>
      (scan img smp P suv px = Some s \<longrightarrow>
         halation_sample_count s = 0
         \<and> halation_accum s = float3 0 0 0
         \<and> normalize_accum (halation_accum s) (halation_sample_count s) = Some (float3 0 0 0))
      \<and> screen_halation P final m = final
      \<and> mainImage img (P\<lparr>halation_threshold := t\<rparr>) uv = mainImage img P uv
      \<and> (max_radius_for_loop P \<notin> {INT_MIN, INT_MAX}
           \<and> max_radius_for_loop (P\<lparr>halation_radius := r\<rparr>) \<notin> {INT_MIN, INT_MAX} \<longrightarrow>
          mainImage img (P\<lparr>halation_threshold := t, halation_radius := r\<rparr>) uv
            = mainImage img P uv))
   \<and> (secondary_glow_intensity P = 0 \<longrightarrow>
      (scan img smp P suv px = Some s \<longrightarrow>
         secondary_glow_sample_count s = 0
         \<and> secondary_glow_accum s = float3 0 0 0
         \<and> normalize_accum (secondary_glow_accum s) (secondary_glow_sample_count s)
             = Some (float3 0 0 0))
      \<and> screen_secondary_glow P final m = final
      \<and> mainImage img (P\<lparr>secondary_glow_threshold := t\<rparr>) uv = mainImage img P uv
      \<and> (max_radius_for_loop P \<notin> {INT_MIN, INT_MAX}
           \<and> max_radius_for_loop (P\<lparr>secondary_glow_radius := r\<rparr>) \<notin> {INT_MIN, INT_MAX} \<longrightarrow>
          mainImage img (P\<lparr>secondary_glow_threshold := t, secondary_glow_radius := r\<rparr>) uv
            = mainImage img P uv))"
proof (intro conjI impI)
  show "(scan img smp P suv px = None) = (max_radius_for_loop P = INT_MAX)"
    by (rule scan_None)
qed (simp_all add: bloom_off halation_off secondary_glow_off normalize_zero add_bloom_def
    screen_halation_def screen_secondary_glow_def mainImage_def bloom_threshold_invariant
    halation_threshold_invariant secondary_glow_threshold_invariant bloom_off_invariant
    halation_off_invariant secondary_glow_off_invariant)

text \<open>
  C4 for the settings with every effect off, on the grey image; the radius of the effect is
  changed to 7, past the largest radius 4.
\<close>

theorem disabled_effect_witness:
  "map_option bloom_sample_count
     (scan grey_opaque textureSampler noop (float2 0.5 0.5) (float2 1 1)) = Some 0
   \<and> map_option bloom_accum
     (scan grey_opaque textureSampler noop (float2 0.5 0.5) (float2 1 1)) = Some (float3 0 0 0)
   \<and> add_bloom noop (float3 0.5 0.5 0.5) (float3 1 1 1) = float3 0.5 0.5 0.5
   \<and> mainImage grey_opaque (noop\<lparr>bloom_threshold := 0.3, bloom_radius := 7\<rparr>) (float2 0.5 0.5)
       = mainImage grey_opaque noop (float2 0.5 0.5)
   \<and> map_option halation_sample_count
     (scan grey_opaque textureSampler noop (float2 0.5 0.5) (float2 1 1)) = Some 0
   \<and> screen_halation noop (float3 0.5 0.5 0.5) (float3 1 1 1) = float3 0.5 0.5 0.5
   \<and> mainImage grey_opaque (noop\<lparr>halation_threshold := 0.3, halation_radius := 7\<rparr>)
         (float2 0.5 0.5)
       = mainImage grey_opaque noop (float2 0.5 0.5)
   \<and> map_option secondary_glow_sample_count
        (scan grey_opaque textureSampler noop (float2 0.5 0.5) (float2 1 1)) = Some 0
   \<and> screen_secondary_glow noop (float3 0.5 0.5 0.5) (float3 1 1 1) = float3 0.5 0.5 0.5
   \<and> mainImage grey_opaque
         (noop\<lparr>secondary_glow_threshold := 0.3, secondary_glow_radius := 7\<rparr>) (float2 0.5 0.5)
       = mainImage grey_opaque noop (float2 0.5 0.5)"
proof -
  have i: "bloom_intensity noop = 0" "halation_intensity noop = 0"
    "secondary_glow_intensity noop = 0"
    by (simp_all add: noop_def)
  have m: "max_radius_for_loop noop \<notin> {INT_MIN, INT_MAX}"
    using max_radius_noop four_not_INT_MAX by simp
  have seven: "(7::int32) \<noteq> INT_MAX" "(7::int32) \<noteq> INT_MIN"
    by (simp_all add: eq_INT_MAX eq_INT_MIN)
  have m': "max_radius_for_loop (noop\<lparr>bloom_radius := 7\<rparr>) \<notin> {INT_MIN, INT_MAX}"
    "max_radius_for_loop (noop\<lparr>halation_radius := 7\<rparr>) \<notin> {INT_MIN, INT_MAX}"
    "max_radius_for_loop (noop\<lparr>secondary_glow_radius := 7\<rparr>) \<notin> {INT_MIN, INT_MAX}"
    using seven
    by (simp_all add: max_radius_for_loop_def noop_def defaults_def max32_def word_sless_alt)
  obtain s where s: "scan grey_opaque textureSampler noop (float2 0.5 0.5) (float2 1 1) = Some s"
    using scan_returns [of noop grey_opaque textureSampler "float2 0.5 0.5" "float2 1 1"] m
    by auto
  from disabled_effect [where P = noop and img = grey_opaque and smp = textureSampler
        and suv = "float2 0.5 0.5" and px = "float2 1 1" and final = "float3 0.5 0.5 0.5"
        and m = "float3 1 1 1" and s = s and t = "0.3" and r = 7 and uv = "float2 0.5 0.5"]
  show ?thesis
    using i m m' s by simp
qed

subsection \<open>C5: the shake offset\<close>

text \<open>
  C5. The shake offset is exactly \<open>(0, 0)\<close> when \<open>shake_intensity \<le> 0\<close>. Otherwise, with
  \<open>t = elapsed_time * shake_speed\<close>, its components are
  \<open>0.5 * (sin (1.3 t + 0.5) + sin (2.7 t + 1.2)) * shake_intensity\<close> and
  \<open>0.5 * (cos (1.7 t - 0.8) + cos (3.1 t - 0.3)) * shake_intensity\<close>. Everything the pixel
  reads afterwards is read at \<open>uv + offset\<close>: the pixel is the one the shader without shake
  computes at that coordinate.
\<close>

theorem shake_offset_generator:
  "(shake_intensity P \<le> 0 \<longrightarrow> shake_offset P = float2 0 0)
   \<and> (shake_intensity P > 0 \<longrightarrow>
        shake_offset P =
          float2 (0.5 * (sin (1.3 * (elapsed_time P * shake_speed P) + 0.5)
                         + sin (2.7 * (elapsed_time P * shake_speed P) + 1.2)) * shake_intensity P)
                 (0.5 * (cos (1.7 * (elapsed_time P * shake_speed P) - 0.8)
                         + cos (3.1 * (elapsed_time P * shake_speed P) - 0.3)) * shake_intensity P))
   \<and> mainImage img P uv = mainImage img (P\<lparr>shake_intensity := 0\<rparr>) (uv + shake_offset P)"
proof (intro conjI impI)
  assume "shake_intensity P \<le> 0"
  then show "shake_offset P = float2 0 0" by (rule shake_offset_off)
next
  assume "shake_intensity P > 0"
  then show "shake_offset P =
          float2 (0.5 * (sin (1.3 * (elapsed_time P * shake_speed P) + 0.5)
                         + sin (2.7 * (elapsed_time P * shake_speed P) + 1.2)) * shake_intensity P)
                 (0.5 * (cos (1.7 * (elapsed_time P * shake_speed P) - 0.8)
                         + cos (3.1 * (elapsed_time P * shake_speed P) - 0.3)) * shake_intensity P)"
    by (simp add: shake_offset_def Let_def times_float2_def splat2_def mult.commute)
next
  show "mainImage img P uv = mainImage img (P\<lparr>shake_intensity := 0\<rparr>) (uv + shake_offset P)"
    unfolding mainImage_def using film_look_shift [of textureSampler _ img P uv] by simp
qed

text \<open>
  C5 for the default settings at time 0, with the shake off and with the shake on.
\<close>

theorem shake_offset_generator_witness:
  "shake_offset (defaults\<lparr>shake_intensity := 0\<rparr>) = float2 0 0
   \<and> shake_offset defaults =
       float2 (0.5 * (sin 0.5 + sin 1.2) * 0.002) (0.5 * (cos (- 0.8) + cos (- 0.3)) * 0.002)"
proof -
  have "shake_intensity (defaults\<lparr>shake_intensity := 0\<rparr>) \<le> 0" by simp
  moreover have "shake_intensity defaults > 0" by (simp add: defaults_def)
  ultimately show ?thesis
    using shake_offset_generator [of "defaults\<lparr>shake_intensity := 0\<rparr>" fading "float2 0 0"]
      shake_offset_generator [of defaults fading "float2 0 0"]
    by (simp add: defaults_def)
qed

subsection \<open>C6: the orange shift\<close>

text \<open>
  C6. The colour grader raises the colour to the power \<open>contrast\<close>, takes the luma
  \<open>0.299 R + 0.587 G + 0.114 B\<close> of that colour once, blends towards teal, and blends the
  result of the teal blend towards \<open>(1.0, 0.9, 0.7)\<close> with the weight
  \<open>smoothstep(0.4, 0.0, luma) * orange_amount\<close>. That weight is \<open>orange_amount\<close> for a luma of
  at most 0 and 0 for a luma of at least 0.4. For a non-negative \<open>orange_amount\<close> it never
  increases with the luma, and for a positive one it decreases strictly between 0 and 0.4.
\<close>

theorem orange_shift:
  "graded_color P c =
     lerp (lerp (pow c (splat3 (contrast P))) (float3 0.7 0.85 1.0)
            (smoothstep 0.5 1.0 (luma (pow c (splat3 (contrast P)))) * teal_amount P))
          (float3 1.0 0.9 0.7)
          (smoothstep 0.4 0.0 (luma (pow c (splat3 (contrast P)))) * orange_amount P)
   \<and> (l \<le> 0 \<longrightarrow> smoothstep 0.4 0.0 l * orange_amount P = orange_amount P)
   \<and> (0.4 \<le> l \<longrightarrow> smoothstep 0.4 0.0 l * orange_amount P = 0)
   \<and> (0 \<le> orange_amount P \<and> l1 \<le> l2 \<longrightarrow>
        smoothstep 0.4 0.0 l2 * orange_amount P \<le> smoothstep 0.4 0.0 l1 * orange_amount P)
   \<and> (0 < orange_amount P \<and> 0 \<le> l1 \<and> l1 < l2 \<and> l2 \<le> 0.4 \<longrightarrow>
        smoothstep 0.4 0.0 l2 * orange_amount P < smoothstep 0.4 0.0 l1 * orange_amount P)"
proof (intro conjI impI)
  show "graded_color P c =
     lerp (lerp (pow c (splat3 (contrast P))) (float3 0.7 0.85 1.0)
            (smoothstep 0.5 1.0 (luma (pow c (splat3 (contrast P)))) * teal_amount P))
          (float3 1.0 0.9 0.7)
          (smoothstep 0.4 0.0 (luma (pow c (splat3 (contrast P)))) * orange_amount P)"
    by (simp add: graded_color_def Let_def luma_def splat3_def)
next
  assume "l \<le> 0"
  then show "smoothstep 0.4 0.0 l * orange_amount P = orange_amount P"
    by (simp only: smoothstep_orange_shadow mult_1)
next
  assume "0.4 \<le> l"
  then show "smoothstep 0.4 0.0 l * orange_amount P = 0"
    by (simp only: smoothstep_orange_bright mult_zero_left)
next
  assume "0 \<le> orange_amount P \<and> l1 \<le> l2"
  then show "smoothstep 0.4 0.0 l2 * orange_amount P \<le> smoothstep 0.4 0.0 l1 * orange_amount P"
    by (intro mult_right_mono smoothstep_orange_antimono) simp_all
next
  assume "0 < orange_amount P \<and> 0 \<le> l1 \<and> l1 < l2 \<and> l2 \<le> 0.4"
  then show "smoothstep 0.4 0.0 l2 * orange_amount P < smoothstep 0.4 0.0 l1 * orange_amount P"
    by (intro mult_strict_right_mono smoothstep_orange_strict) simp_all
qed

text \<open>
  C6 for the default \<open>orange_amount = 0.15\<close>, at the lumas -1, 0.5, 0.1 and 0.3.
\<close>

theorem orange_shift_witness:
  "smoothstep 0.4 0.0 (- 1) * orange_amount defaults = 0.15
   \<and> smoothstep 0.4 0.0 0.5 * orange_amount defaults = 0
   \<and> smoothstep 0.4 0.0 0.3 * orange_amount defaults
       < smoothstep 0.4 0.0 0.1 * orange_amount defaults"
proof -
  have a: "orange_amount defaults = 0.15" by (simp add: defaults_def)
  have "smoothstep 0.4 0.0 (- 1) * orange_amount defaults = orange_amount defaults"
    using orange_shift [of defaults "float3 0 0 0" "- 1" "0.1" "0.3"] by simp
  moreover have "smoothstep 0.4 0.0 0.5 * orange_amount defaults = 0"
    using orange_shift [of defaults "float3 0 0 0" "0.5" "0.1" "0.3"] by simp
  moreover have "smoothstep 0.4 0.0 0.3 * orange_amount defaults
       < smoothstep 0.4 0.0 0.1 * orange_amount defaults"
    using orange_shift [of defaults "float3 0 0 0" "0.5" "0.1" "0.3"] a by simp
  ultimately show ?thesis using a by simp
qed

subsection \<open>C7: the configuration that changes nothing\<close>

text \<open>
  C7. With \<open>teal_amount\<close>, \<open>orange_amount\<close>, the three glow intensities, \<open>grain_intensity\<close>
  and \<open>shake_intensity\<close> all 0 and \<open>contrast = 1\<close>, on an image whose channels lie in
  \<open>[0,1]\<close>, the output pixel is the input sampled at the base coordinate, colour and alpha,
  for every coordinate and every \<open>elapsed_time\<close>. The shader returns that pixel unless the
  largest of the three radii is 2147483647, where the scan never ends.
\<close>

theorem noop_configuration:
  assumes "teal_amount P = 0" and "orange_amount P = 0"
    and "bloom_intensity P = 0" and "halation_intensity P = 0"
    and "secondary_glow_intensity P = 0" and "grain_intensity P = 0"
    and "shake_intensity P = 0" and "contrast P = 1"
    and "\<forall>p. normalized (img p)"
  shows "mainImage img P uv =
     (if max_radius_for_loop P = INT_MAX then None else Some (Sample img textureSampler uv))"
proof (cases "scan img textureSampler P (uv + shake_offset P) (splat2 1 / uv_size P)")
  case None
  then show ?thesis
    using film_look_None [of textureSampler "splat2 1 / uv_size P" img P uv]
    by (simp add: mainImage_def scan_None)
next
  case (Some s)
  let ?c = "Sample img textureSampler uv"
  have n: "normalized ?c"
    using assms(9) by (rule Sample_normalized)
  have off: "shake_offset P = float2 0 0"
    using assms(7) by (simp add: shake_offset_off)
  have g: "graded_color P (rgb ?c) = rgb ?c"
    using assms(1,2,8) n by (intro graded_color_identity) (simp_all add: normalized_def)
  have c: "clamp (rgb ?c) 0 1 = rgb ?c"
    using n by (intro clamp_unit) (simp_all add: normalized_def)
  have "mainImage img P uv = Some ?c"
    unfolding mainImage_def film_look_Some [OF Some]
    unfolding off add_zero2 g
    by (simp only: final_color_off [OF assms(3,4,5,6)] c float4.collapse)
  then show ?thesis
    using scan_Some_max [OF Some] by simp
qed

text \<open>
  C7 on a grey opaque image at the time 7.
\<close>

theorem noop_configuration_witness:
  "mainImage grey_opaque noop (float2 0.25 0.75) = Some (float4 (float3 0.5 0.5 0.5) 1)"
proof -
  have "\<forall>p. normalized (grey_opaque p)"
    by (simp add: normalized_def grey_opaque_def)
  moreover have "max_radius_for_loop noop \<noteq> INT_MAX"
    using max_radius_defaults four_not_INT_MAX by (simp add: max_radius_for_loop_def noop_def)
  ultimately have "mainImage grey_opaque noop (float2 0.25 0.75) =
      Some (Sample grey_opaque textureSampler (float2 0.25 0.75))"
    using noop_configuration [of noop grey_opaque "float2 0.25 0.75"] by (simp add: noop_def)
  then show ?thesis
    by (simp add: Sample_def textureSampler_def outside_def grey_opaque_def)
qed

subsection \<open>C8: a uniform image\<close>

text \<open>
  C8. On an image of constant colour \<open>C\<close>, with every coordinate of the scanned neighbourhood
  inside the unit square, each effect with intensity above 0 and radius at least 0 has, after
  the scan, the mean \<open>smoothstep(threshold, 1, luma(C))\<close> times \<open>C\<close>, where \<open>C\<close> is tinted by
  \<open>(1.0, 0.2, 0.1)\<close> for halation and by \<open>(0.6, 0.8, 1.0)\<close> for secondary glow and untinted
  for bloom. The radius does not occur in the mean. The scan ends unless the largest of the
  three radii is 2147483647.
\<close>

theorem uniform_image_mean:
  assumes "\<forall>p. rgb (img p) = C"
    and "\<forall>x y. \<bar>x\<bar> \<le> sint (max_radius_for_loop P) \<and> \<bar>y\<bar> \<le> sint (max_radius_for_loop P) \<longrightarrow>
           \<not> outside (xcomp (suv + float2 (real_of_int x) (real_of_int y) * px))
           \<and> \<not> outside (ycomp (suv + float2 (real_of_int x) (real_of_int y) * px))"
  shows "((scan img smp P suv px = None) = (max_radius_for_loop P = INT_MAX))
       \<and> (0 < bloom_intensity P \<and> 0 \<le>s bloom_radius P \<and> scan img smp P suv px = Some s \<longrightarrow>
            normalize_accum (bloom_accum s) (bloom_sample_count s) =
            Some (C * splat3 (smoothstep (bloom_threshold P) 1 (luma C))))
       \<and> (0 < halation_intensity P \<and> 0 \<le>s halation_radius P
            \<and> scan img smp P suv px = Some s \<longrightarrow>
            normalize_accum (halation_accum s) (halation_sample_count s) =
            Some ((C * float3 1.0 0.2 0.1) * splat3 (smoothstep (halation_threshold P) 1 (luma C))))
       \<and> (0 < secondary_glow_intensity P \<and> 0 \<le>s secondary_glow_radius P
            \<and> scan img smp P suv px = Some s \<longrightarrow>
            normalize_accum (secondary_glow_accum s) (secondary_glow_sample_count s) =
            Some ((C * float3 0.6 0.8 1.0)
                  * splat3 (smoothstep (secondary_glow_threshold P) 1 (luma C))))"
proof (intro conjI impI)
  show "(scan img smp P suv px = None) = (max_radius_for_loop P = INT_MAX)"
    by (rule scan_None)
next
  assume on: "0 < bloom_intensity P \<and> 0 \<le>s bloom_radius P \<and> scan img smp P suv px = Some s"
  then have s: "scan img smp P suv px = Some s" and reg: "max_radius_for_loop P \<noteq> INT_MIN"
    and nn: "0 \<le> sint (bloom_radius P)" and i: "0 < bloom_intensity P"
    by (simp_all add: regular_bloom word_sle_eq)
  have "\<forall>x y. \<bar>x\<bar> \<le> sint (bloom_radius P) \<and> \<bar>y\<bar> \<le> sint (bloom_radius P) \<longrightarrow>
          sample_color_at img smp suv px x y = C"
    using assms by (rule uniform_sample_color_at) (simp add: sint_max_radius)
  then have acc: "bloom_accum s =
      (\<Sum>x\<in>{- sint (bloom_radius P)..sint (bloom_radius P)}.
       \<Sum>y\<in>{- sint (bloom_radius P)..sint (bloom_radius P)}.
         weighted (bloom_threshold P) (float3 1 1 1) C)"
    using i by (simp only: bloom_accum_scan [OF s reg] uniform_square_sum if_True)
  have cnt: "bloom_sample_count s = (2 * real_of_int (sint (bloom_radius P)) + 1)\<^sup>2"
    using i nn by (simp only: bloom_sample_count_scan [OF s reg] simp_thms if_True)
  have "normalize_accum (bloom_accum s) (bloom_sample_count s) =
      Some (weighted (bloom_threshold P) (float3 1 1 1) C)"
    using square_pos [OF nn]
    by (simp only: normalize_accum_Some cnt acc if_True const_square_mean [OF nn])
  then show "normalize_accum (bloom_accum s) (bloom_sample_count s) =
            Some (C * splat3 (smoothstep (bloom_threshold P) 1 (luma C)))"
    by (simp add: weighted_def times_one3)
next
  assume on: "0 < halation_intensity P \<and> 0 \<le>s halation_radius P
      \<and> scan img smp P suv px = Some s"
  then have s: "scan img smp P suv px = Some s" and reg: "max_radius_for_loop P \<noteq> INT_MIN"
    and nn: "0 \<le> sint (halation_radius P)" and i: "0 < halation_intensity P"
    by (simp_all add: regular_halation word_sle_eq)
  have "\<forall>x y. \<bar>x\<bar> \<le> sint (halation_radius P) \<and> \<bar>y\<bar> \<le> sint (halation_radius P) \<longrightarrow>
          sample_color_at img smp suv px x y = C"
    using assms by (rule uniform_sample_color_at) (simp add: sint_max_radius)
  then have acc: "halation_accum s =
      (\<Sum>x\<in>{- sint (halation_radius P)..sint (halation_radius P)}.
       \<Sum>y\<in>{- sint (halation_radius P)..sint (halation_radius P)}.
         weighted (halation_threshold P) (float3 1 0.2 0.1) C)"
    using i by (simp only: halation_accum_scan [OF s reg] uniform_square_sum if_True)
  have cnt: "halation_sample_count s = (2 * real_of_int (sint (halation_radius P)) + 1)\<^sup>2"
    using i nn by (simp only: halation_sample_count_scan [OF s reg] simp_thms if_True)
  have "normalize_accum (halation_accum s) (halation_sample_count s) =
      Some (weighted (halation_threshold P) (float3 1 0.2 0.1) C)"
    using square_pos [OF nn]
    by (simp only: normalize_accum_Some cnt acc if_True const_square_mean [OF nn])
  then show "normalize_accum (halation_accum s) (halation_sample_count s) =
            Some ((C * float3 1.0 0.2 0.1) * splat3 (smoothstep (halation_threshold P) 1 (luma C)))"
    by (simp add: weighted_def)
next
  assume on: "0 < secondary_glow_intensity P \<and> 0 \<le>s secondary_glow_radius P
      \<and> scan img smp P suv px = Some s"
  then have s: "scan img smp P suv px = Some s" and reg: "max_radius_for_loop P \<noteq> INT_MIN"
    and nn: "0 \<le> sint (secondary_glow_radius P)" and i: "0 < secondary_glow_intensity P"
    by (simp_all add: regular_secondary_glow word_sle_eq)
  have "\<forall>x y. \<bar>x\<bar> \<le> sint (secondary_glow_radius P) \<and> \<bar>y\<bar> \<le> sint (secondary_glow_radius P) \<longrightarrow>
          sample_color_at img smp suv px x y = C"
    using assms by (rule uniform_sample_color_at) (simp add: sint_max_radius)
  then have acc: "secondary_glow_accum s =
      (\<Sum>x\<in>{- sint (secondary_glow_radius P)..sint (secondary_glow_radius P)}.
       \<Sum>y\<in>{- sint (secondary_glow_radius P)..sint (secondary_glow_radius P)}.
         weighted (secondary_glow_threshold P) (float3 0.6 0.8 1) C)"
    using i by (simp only: secondary_glow_accum_scan [OF s reg] uniform_square_sum if_True)
  have cnt: "secondary_glow_sample_count s = (2 * real_of_int (sint (secondary_glow_radius P)) + 1)\<^sup>2"
    using i nn by (simp only: secondary_glow_sample_count_scan [OF s reg] simp_thms if_True)
  have "normalize_accum (secondary_glow_accum s) (secondary_glow_sample_count s) =
      Some (weighted (secondary_glow_threshold P) (float3 0.6 0.8 1) C)"
    using square_pos [OF nn]
    by (simp only: normalize_accum_Some cnt acc if_True const_square_mean [OF nn])
  then show "normalize_accum (secondary_glow_accum s) (secondary_glow_sample_count s) =
            Some ((C * float3 0.6 0.8 1.0)
                  * splat3 (smoothstep (secondary_glow_threshold P) 1 (luma C)))"
    by (simp add: weighted_def)
qed

text \<open>
  C8 for the bloom of the default settings at the centre of the grey image.
\<close>

theorem uniform_image_mean_witness:
  "Option.bind
     (scan grey_opaque textureSampler defaults (float2 0.5 0.5) (splat2 1 / uv_size defaults))
     (\<lambda>s. normalize_accum (bloom_accum s) (bloom_sample_count s))
   = Some (float3 0.5 0.5 0.5 * splat3 (smoothstep 0.8 1 (luma (float3 0.5 0.5 0.5))))"
proof -
  have u: "\<forall>p. rgb (grey_opaque p) = float3 0.5 0.5 0.5"
    by (simp add: grey_opaque_def)
  have on: "0 < bloom_intensity defaults \<and> 0 \<le>s bloom_radius defaults"
    by (simp add: defaults_def word_sle_eq)
  have t: "bloom_threshold defaults = 0.8"
    by (simp add: defaults_def)
  obtain s where s: "scan grey_opaque textureSampler defaults (float2 0.5 0.5)
      (splat2 1 / uv_size defaults) = Some s"
    using scan_returns [of defaults grey_opaque textureSampler "float2 0.5 0.5"
        "splat2 1 / uv_size defaults"] max_radius_defaults four_not_INT_MAX by auto
  from uniform_image_mean [OF u defaults_inside, of textureSampler s]
  show ?thesis
    using on t s by simp
qed

subsection \<open>C9: an effect of non-positive radius\<close>

text \<open>
  C9, as amended. The shader returns a pixel unless the largest of the three radii is
  2147483647, where the scan never ends (lemma \<open>endless_radius_no_pixel\<close> has an instance).
  When the largest radius is not -2147483648, for each effect whose radius is negative the
  cutoff is false at every scanned offset: after the scan the counter is 0, the accumulator is
  the zero vector, normalising it divides by nothing, and the effect's step of the compositor
  with that zero mean returns the colour it was given. (At the radius 0 the effect accumulates
  the centre sample. When the three radii are all -2147483648, the negation of the scan bound
  and \<open>abs\<close> wrap around: the loop body runs once and the cutoff holds there, so that every
  effect with intensity above 0 counts one sample, lemma \<open>bloom_sample_count_INT_MIN\<close>.)
\<close>

theorem negative_radius:
  "((mainImage img P uv = None) = (max_radius_for_loop P = INT_MAX))
   \<and> (max_radius_for_loop P \<noteq> INT_MIN \<longrightarrow>
      (bloom_radius P <s 0 \<longrightarrow>
         (scan img smp P suv px = Some s \<longrightarrow>
            bloom_sample_count s = 0
            \<and> bloom_accum s = float3 0 0 0
            \<and> normalize_accum (bloom_accum s) (bloom_sample_count s) = Some (float3 0 0 0))
         \<and> add_bloom P final (float3 0 0 0) = final)
      \<and> (halation_radius P <s 0 \<longrightarrow>
         (scan img smp P suv px = Some s \<longrightarrow>
            halation_sample_count s = 0
            \<and> halation_accum s = float3 0 0 0
            \<and> normalize_accum (halation_accum s) (halation_sample_count s)
                = Some (float3 0 0 0))
         \<and> screen_halation P final (float3 0 0 0) = final)
      \<and> (secondary_glow_radius P <s 0 \<longrightarrow>
         (scan img smp P suv px = Some s \<longrightarrow>
            secondary_glow_sample_count s = 0
            \<and> secondary_glow_accum s = float3 0 0 0
            \<and> normalize_accum (secondary_glow_accum s) (secondary_glow_sample_count s)
                = Some (float3 0 0 0))
         \<and> screen_secondary_glow P final (float3 0 0 0) = final))"
proof (intro conjI impI)
  show "(mainImage img P uv = None) = (max_radius_for_loop P = INT_MAX)"
    unfolding mainImage_def by (rule film_look_None)
qed (simp_all add: bloom_negative halation_negative secondary_glow_negative normalize_zero
    add_bloom_def screen_halation_def screen_secondary_glow_def BlendScreen_zero add_zero_scaled)

text \<open>
  C9, as amended, for the default settings with one radius made negative, for each effect in
  turn. The scan runs, by the radii of the other two effects (over the offsets from -4 to 4,
  from -3 to 3 when the halation radius is the negative one), and the cutoff of the effect with
  the negative radius is false at each offset.
\<close>

theorem negative_radius_witness:
  "bloom_radius negative_bloom_radius <s 0
   \<and> max_radius_for_loop negative_bloom_radius = 4
   \<and> map_option bloom_sample_count
        (scan grey_opaque textureSampler negative_bloom_radius (float2 0.5 0.5) (float2 1 1))
       = Some 0
   \<and> map_option bloom_accum
        (scan grey_opaque textureSampler negative_bloom_radius (float2 0.5 0.5) (float2 1 1))
       = Some (float3 0 0 0)
   \<and> mainImage grey_opaque negative_bloom_radius (float2 0.5 0.5) \<noteq> None
   \<and> halation_radius negative_halation_radius <s 0
   \<and> max_radius_for_loop negative_halation_radius = 3
   \<and> map_option halation_sample_count
        (scan grey_opaque textureSampler negative_halation_radius (float2 0.5 0.5) (float2 1 1))
       = Some 0
   \<and> map_option halation_accum
        (scan grey_opaque textureSampler negative_halation_radius (float2 0.5 0.5) (float2 1 1))
       = Some (float3 0 0 0)
   \<and> secondary_glow_radius negative_secondary_glow_radius <s 0
   \<and> max_radius_for_loop negative_secondary_glow_radius = 4
   \<and> map_option secondary_glow_sample_count
        (scan grey_opaque textureSampler negative_secondary_glow_radius (float2 0.5 0.5)
           (float2 1 1))
       = Some 0
   \<and> map_option secondary_glow_accum
        (scan grey_opaque textureSampler negative_secondary_glow_radius (float2 0.5 0.5)
           (float2 1 1))
       = Some (float3 0 0 0)"
proof -
  note m = max_radius_negative
  have r: "bloom_radius negative_bloom_radius <s 0"
    "halation_radius negative_halation_radius <s 0"
    "secondary_glow_radius negative_secondary_glow_radius <s 0"
    by (simp_all add: negative_bloom_radius_def negative_halation_radius_def
        negative_secondary_glow_radius_def word_sless_alt)
  have reg: "max_radius_for_loop negative_bloom_radius \<noteq> INT_MIN"
    "max_radius_for_loop negative_halation_radius \<noteq> INT_MIN"
    "max_radius_for_loop negative_secondary_glow_radius \<noteq> INT_MIN"
    "max_radius_for_loop negative_bloom_radius \<noteq> INT_MAX"
    "max_radius_for_loop negative_halation_radius \<noteq> INT_MAX"
    "max_radius_for_loop negative_secondary_glow_radius \<noteq> INT_MAX"
    using four_not_INT_MAX three_not_INT_MAX by (simp_all add: m)
  obtain s1 where s1: "scan grey_opaque textureSampler negative_bloom_radius (float2 0.5 0.5)
      (float2 1 1) = Some s1"
    using scan_returns [of negative_bloom_radius grey_opaque textureSampler "float2 0.5 0.5"
        "float2 1 1"] reg by auto
  obtain s2 where s2: "scan grey_opaque textureSampler negative_halation_radius (float2 0.5 0.5)
      (float2 1 1) = Some s2"
    using scan_returns [of negative_halation_radius grey_opaque textureSampler "float2 0.5 0.5"
        "float2 1 1"] reg by auto
  obtain s3 where s3: "scan grey_opaque textureSampler negative_secondary_glow_radius
      (float2 0.5 0.5) (float2 1 1) = Some s3"
    using scan_returns [of negative_secondary_glow_radius grey_opaque textureSampler
        "float2 0.5 0.5" "float2 1 1"] reg by auto
  have 1: "bloom_sample_count s1 = 0 \<and> bloom_accum s1 = float3 0 0 0
      \<and> mainImage grey_opaque negative_bloom_radius (float2 0.5 0.5) \<noteq> None"
    using negative_radius [of grey_opaque negative_bloom_radius "float2 0.5 0.5" textureSampler
        "float2 0.5 0.5" "float2 1 1" s1 "float3 0 0 0"] r reg s1
    by simp
  have 2: "halation_sample_count s2 = 0 \<and> halation_accum s2 = float3 0 0 0"
    using negative_radius [of grey_opaque negative_halation_radius "float2 0.5 0.5"
        textureSampler "float2 0.5 0.5" "float2 1 1" s2 "float3 0 0 0"] r reg s2
    by simp
  have 3: "secondary_glow_sample_count s3 = 0 \<and> secondary_glow_accum s3 = float3 0 0 0"
    using negative_radius [of grey_opaque negative_secondary_glow_radius "float2 0.5 0.5"
        textureSampler "float2 0.5 0.5" "float2 1 1" s3 "float3 0 0 0"] r reg s3
    by simp
  show ?thesis
    using 1 2 3 r m s1 s2 s3 by simp
qed

text \<open>
  C9 as stated fails at the radius 0, which is non-positive: the cutoff \<open>abs(x) <= 0\<close> holds
  at the centre offset. With bloom alone switched on at radius 0 and threshold 0, a grey pixel
  \<open>0.5\<close> comes out as \<open>0.75\<close>; with bloom off it stays \<open>0.5\<close>.
\<close>

theorem zero_radius_counterexample:
  "bloom_radius centre_bloom \<le>s 0
   \<and> mainImage grey_opaque centre_bloom (float2 0.5 0.5)
       = Some (float4 (float3 0.75 0.75 0.75) 1)
   \<and> mainImage grey_opaque (centre_bloom\<lparr>bloom_intensity := 0\<rparr>) (float2 0.5 0.5)
       = Some (float4 (float3 0.5 0.5 0.5) 1)"
  using centre_bloom_pixel centre_bloom_off_pixel
  by (simp add: centre_bloom_fields)

subsection \<open>C10: each effect averages over its own square\<close>

text \<open>
  C10. The scan ends unless the largest of the three radii is 2147483647. For each effect with
  intensity above 0 and radius \<open>r \<ge> 0\<close>: after the shared scan its counter is \<open>(2r+1)\<^sup>2\<close>,
  its accumulator is the sum of the weighted (and, for halation and secondary glow, tinted)
  sample colours over the offsets \<open>(x, y)\<close> with \<open>|x| \<le> r\<close> and \<open>|y| \<le> r\<close>, the division
  yields that sum divided by \<open>(2r+1)\<^sup>2\<close>, and the counter and the accumulator are the same
  after the scan with any other radii of the other two effects.
\<close>

theorem effect_square_mean:
  "((scan img smp P suv px = None) = (max_radius_for_loop P = INT_MAX))
   \<and> (0 < bloom_intensity P \<and> 0 \<le>s bloom_radius P \<and> scan img smp P suv px = Some s \<longrightarrow>
      bloom_sample_count s = (2 * real_of_int (sint (bloom_radius P)) + 1)\<^sup>2
      \<and> bloom_accum s =
          (\<Sum>x\<in>{- sint (bloom_radius P)..sint (bloom_radius P)}.
           \<Sum>y\<in>{- sint (bloom_radius P)..sint (bloom_radius P)}.
             weighted (bloom_threshold P) (float3 1 1 1) (sample_color_at img smp suv px x y))
      \<and> normalize_accum (bloom_accum s) (bloom_sample_count s) =
          Some ((\<Sum>x\<in>{- sint (bloom_radius P)..sint (bloom_radius P)}.
                 \<Sum>y\<in>{- sint (bloom_radius P)..sint (bloom_radius P)}.
                   weighted (bloom_threshold P) (float3 1 1 1)
                     (sample_color_at img smp suv px x y))
                / splat3 ((2 * real_of_int (sint (bloom_radius P)) + 1)\<^sup>2))
      \<and> (scan img smp (P\<lparr>halation_radius := a, secondary_glow_radius := b\<rparr>) suv px = Some s'
           \<longrightarrow> bloom_sample_count s' = bloom_sample_count s
               \<and> bloom_accum s' = bloom_accum s))
   \<and> (0 < halation_intensity P \<and> 0 \<le>s halation_radius P
        \<and> scan img smp P suv px = Some s \<longrightarrow>
      halation_sample_count s = (2 * real_of_int (sint (halation_radius P)) + 1)\<^sup>2
      \<and> halation_accum s =
          (\<Sum>x\<in>{- sint (halation_radius P)..sint (halation_radius P)}.
           \<Sum>y\<in>{- sint (halation_radius P)..sint (halation_radius P)}.
             weighted (halation_threshold P) (float3 1 0.2 0.1)
               (sample_color_at img smp suv px x y))
      \<and> normalize_accum (halation_accum s) (halation_sample_count s) =
          Some ((\<Sum>x\<in>{- sint (halation_radius P)..sint (halation_radius P)}.
                 \<Sum>y\<in>{- sint (halation_radius P)..sint (halation_radius P)}.
                   weighted (halation_threshold P) (float3 1 0.2 0.1)
                     (sample_color_at img smp suv px x y))
                / splat3 ((2 * real_of_int (sint (halation_radius P)) + 1)\<^sup>2))
      \<and> (scan img smp (P\<lparr>bloom_radius := a, secondary_glow_radius := b\<rparr>) suv px = Some s'
           \<longrightarrow> halation_sample_count s' = halation_sample_count s
               \<and> halation_accum s' = halation_accum s))
   \<and> (0 < secondary_glow_intensity P \<and> 0 \<le>s secondary_glow_radius P
        \<and> scan img smp P suv px = Some s \<longrightarrow>
      secondary_glow_sample_count s =
          (2 * real_of_int (sint (secondary_glow_radius P)) + 1)\<^sup>2
      \<and> secondary_glow_accum s =
          (\<Sum>x\<in>{- sint (secondary_glow_radius P)..sint (secondary_glow_radius P)}.
           \<Sum>y\<in>{- sint (secondary_glow_radius P)..sint (secondary_glow_radius P)}.
             weighted (secondary_glow_threshold P) (float3 0.6 0.8 1)
               (sample_color_at img smp suv px x y))
      \<and> normalize_accum (secondary_glow_accum s) (secondary_glow_sample_count s) =
          Some ((\<Sum>x\<in>{- sint (secondary_glow_radius P)..sint (secondary_glow_radius P)}.
                 \<Sum>y\<in>{- sint (secondary_glow_radius P)..sint (secondary_glow_radius P)}.
                   weighted (secondary_glow_threshold P) (float3 0.6 0.8 1)
                     (sample_color_at img smp suv px x y))
                / splat3 ((2 * real_of_int (sint (secondary_glow_radius P)) + 1)\<^sup>2))
      \<and> (scan img smp (P\<lparr>bloom_radius := a, halation_radius := b\<rparr>) suv px = Some s'
           \<longrightarrow> secondary_glow_sample_count s' = secondary_glow_sample_count s
               \<and> secondary_glow_accum s' = secondary_glow_accum s))"
proof (intro conjI impI)
  show "(scan img smp P suv px = None) = (max_radius_for_loop P = INT_MAX)"
    by (rule scan_None)
next
  assume a: "0 < bloom_intensity P \<and> 0 \<le>s bloom_radius P \<and> scan img smp P suv px = Some s"
  then have s: "scan img smp P suv px = Some s" and reg: "max_radius_for_loop P \<noteq> INT_MIN"
    by (simp_all add: regular_bloom)
  note c = bloom_sample_count_scan [OF s reg] bloom_accum_scan [OF s reg]
  from a have nn: "0 \<le> sint (bloom_radius P)" by (simp add: word_sle_eq)
  from a show "bloom_sample_count s = (2 * real_of_int (sint (bloom_radius P)) + 1)\<^sup>2"
    by (simp add: c word_sle_eq)
  from a show "bloom_accum s =
          (\<Sum>x\<in>{- sint (bloom_radius P)..sint (bloom_radius P)}.
           \<Sum>y\<in>{- sint (bloom_radius P)..sint (bloom_radius P)}.
             weighted (bloom_threshold P) (float3 1 1 1) (sample_color_at img smp suv px x y))"
    by (simp add: c)
  from a show "normalize_accum (bloom_accum s) (bloom_sample_count s) =
          Some ((\<Sum>x\<in>{- sint (bloom_radius P)..sint (bloom_radius P)}.
                 \<Sum>y\<in>{- sint (bloom_radius P)..sint (bloom_radius P)}.
                   weighted (bloom_threshold P) (float3 1 1 1)
                     (sample_color_at img smp suv px x y))
                / splat3 ((2 * real_of_int (sint (bloom_radius P)) + 1)\<^sup>2))"
    using nn square_pos [OF nn]
    by (simp only: c normalize_accum_Some if_True simp_thms)
  assume s': "scan img smp (P\<lparr>halation_radius := a, secondary_glow_radius := b\<rparr>) suv px = Some s'"
  have reg': "max_radius_for_loop (P\<lparr>halation_radius := a, secondary_glow_radius := b\<rparr>) \<noteq> INT_MIN"
    using a by (intro regular_bloom) simp
  show "bloom_sample_count s' = bloom_sample_count s"
    by (simp add: c bloom_sample_count_scan [OF s' reg'])
  show "bloom_accum s' = bloom_accum s"
    by (simp add: c bloom_accum_scan [OF s' reg'])
next
  assume a: "0 < halation_intensity P \<and> 0 \<le>s halation_radius P
      \<and> scan img smp P suv px = Some s"
  then have s: "scan img smp P suv px = Some s" and reg: "max_radius_for_loop P \<noteq> INT_MIN"
    by (simp_all add: regular_halation)
  note c = halation_sample_count_scan [OF s reg] halation_accum_scan [OF s reg]
  from a have nn: "0 \<le> sint (halation_radius P)" by (simp add: word_sle_eq)
  from a show "halation_sample_count s = (2 * real_of_int (sint (halation_radius P)) + 1)\<^sup>2"
    by (simp add: c word_sle_eq)
  from a show "halation_accum s =
          (\<Sum>x\<in>{- sint (halation_radius P)..sint (halation_radius P)}.
           \<Sum>y\<in>{- sint (halation_radius P)..sint (halation_radius P)}.
             weighted (halation_threshold P) (float3 1 0.2 0.1)
               (sample_color_at img smp suv px x y))"
    by (simp add: c)
  from a show "normalize_accum (halation_accum s) (halation_sample_count s) =
          Some ((\<Sum>x\<in>{- sint (halation_radius P)..sint (halation_radius P)}.
                 \<Sum>y\<in>{- sint (halation_radius P)..sint (halation_radius P)}.
                   weighted (halation_threshold P) (float3 1 0.2 0.1)
                     (sample_color_at img smp suv px x y))
                / splat3 ((2 * real_of_int (sint (halation_radius P)) + 1)\<^sup>2))"
    using nn square_pos [OF nn]
    by (simp only: c normalize_accum_Some if_True simp_thms)
  assume s': "scan img smp (P\<lparr>bloom_radius := a, secondary_glow_radius := b\<rparr>) suv px = Some s'"
  have reg': "max_radius_for_loop (P\<lparr>bloom_radius := a, secondary_glow_radius := b\<rparr>) \<noteq> INT_MIN"
    using a by (intro regular_halation) simp
  show "halation_sample_count s' = halation_sample_count s"
    by (simp add: c halation_sample_count_scan [OF s' reg'])
  show "halation_accum s' = halation_accum s"
    by (simp add: c halation_accum_scan [OF s' reg'])
next
  assume a: "0 < secondary_glow_intensity P \<and> 0 \<le>s secondary_glow_radius P
      \<and> scan img smp P suv px = Some s"
  then have s: "scan img smp P suv px = Some s" and reg: "max_radius_for_loop P \<noteq> INT_MIN"
    by (simp_all add: regular_secondary_glow)
  note c = secondary_glow_sample_count_scan [OF s reg] secondary_glow_accum_scan [OF s reg]
  from a have nn: "0 \<le> sint (secondary_glow_radius P)" by (simp add: word_sle_eq)
  from a show "secondary_glow_sample_count s =
      (2 * real_of_int (sint (secondary_glow_radius P)) + 1)\<^sup>2"
    by (simp add: c word_sle_eq)
  from a show "secondary_glow_accum s =
          (\<Sum>x\<in>{- sint (secondary_glow_radius P)..sint (secondary_glow_radius P)}.
           \<Sum>y\<in>{- sint (secondary_glow_radius P)..sint (secondary_glow_radius P)}.
             weighted (secondary_glow_threshold P) (float3 0.6 0.8 1)
               (sample_color_at img smp suv px x y))"
    by (simp add: c)
  from a show "normalize_accum (secondary_glow_accum s) (secondary_glow_sample_count s) =
          Some ((\<Sum>x\<in>{- sint (secondary_glow_radius P)..sint (secondary_glow_radius P)}.
                 \<Sum>y\<in>{- sint (secondary_glow_radius P)..sint (secondary_glow_radius P)}.
                   weighted (secondary_glow_threshold P) (float3 0.6 0.8 1)
                     (sample_color_at img smp suv px x y))
                / splat3 ((2 * real_of_int (sint (secondary_glow_radius P)) + 1)\<^sup>2))"
    using nn square_pos [OF nn]
    by (simp only: c normalize_accum_Some if_True simp_thms)
  assume s': "scan img smp (P\<lparr>bloom_radius := a, halation_radius := b\<rparr>) suv px = Some s'"
  have reg': "max_radius_for_loop (P\<lparr>bloom_radius := a, halation_radius := b\<rparr>) \<noteq> INT_MIN"
    using a by (intro regular_secondary_glow) simp
  show "secondary_glow_sample_count s' = secondary_glow_sample_count s"
    by (simp add: c secondary_glow_sample_count_scan [OF s' reg'])
  show "secondary_glow_accum s' = secondary_glow_accum s"
    by (simp add: c secondary_glow_accum_scan [OF s' reg'])
qed

text \<open>
  C10 for the default settings: the radii 2, 4 and 3 give 25, 81 and 49 samples.
\<close>

theorem effect_square_mean_witness:
  "map_option bloom_sample_count
     (scan grey_opaque textureSampler defaults (float2 0.5 0.5) (float2 1 1)) = Some 25
   \<and> map_option halation_sample_count
        (scan grey_opaque textureSampler defaults (float2 0.5 0.5) (float2 1 1)) = Some 81
   \<and> map_option secondary_glow_sample_count
        (scan grey_opaque textureSampler defaults (float2 0.5 0.5) (float2 1 1)) = Some 49"
proof -
  have on: "0 < bloom_intensity defaults \<and> 0 \<le>s bloom_radius defaults"
    "0 < halation_intensity defaults \<and> 0 \<le>s halation_radius defaults"
    "0 < secondary_glow_intensity defaults \<and> 0 \<le>s secondary_glow_radius defaults"
    by (simp_all add: defaults_def word_sle_eq)
  have r: "sint (bloom_radius defaults) = 2" "sint (halation_radius defaults) = 4"
    "sint (secondary_glow_radius defaults) = 3"
    by (simp_all add: defaults_def)
  obtain s where s: "scan grey_opaque textureSampler defaults (float2 0.5 0.5) (float2 1 1)
      = Some s"
    using scan_returns [of defaults grey_opaque textureSampler "float2 0.5 0.5" "float2 1 1"]
      max_radius_defaults four_not_INT_MAX by auto
  from effect_square_mean [of grey_opaque textureSampler defaults "float2 0.5 0.5"
        "float2 1 1" s]
  show ?thesis
    using on r s by simp
qed

end
